theory Spec2Isabelle
  imports Main "HOL-Library.Char_ord" "HOL-Library.List_Lexorder" "HOL-Library.Sublist"
    "HOL-Library.Multiset"
begin

section \<open>Python strings\<close>

text \<open>
  Strings are lists of characters. Case mapping and white space are modelled for the ASCII
  range: a character above 127 is never white space and is its own lower and upper case.
\<close>

definition isspace :: "char \<Rightarrow> bool" where
  \<comment> \<open>white space of \<^verbatim>\<open>str.strip()\<close>: TAB, LF, VT, FF, CR, FS, GS, RS, US and the blank\<close>
  "isspace c = (c \<in> set [CHR 0x09, CHR 0x0A, CHR 0x0B, CHR 0x0C, CHR 0x0D,
                          CHR 0x1C, CHR 0x1D, CHR 0x1E, CHR 0x1F, CHR '' ''])"

definition strip :: "string \<Rightarrow> string" where
  "strip s = rev (dropWhile isspace (rev (dropWhile isspace s)))"

definition lower_char :: "char \<Rightarrow> char" where
  "lower_char c =
     (case map_of (zip ''ABCDEFGHIJKLMNOPQRSTUVWXYZ'' ''abcdefghijklmnopqrstuvwxyz'') c of
        Some d \<Rightarrow> d
      | None \<Rightarrow> c)"

definition upper_char :: "char \<Rightarrow> char" where
  "upper_char c =
     (case map_of (zip ''abcdefghijklmnopqrstuvwxyz'' ''ABCDEFGHIJKLMNOPQRSTUVWXYZ'') c of
        Some d \<Rightarrow> d
      | None \<Rightarrow> c)"

definition lower :: "string \<Rightarrow> string" where
  "lower s = map lower_char s"

definition upper :: "string \<Rightarrow> string" where
  "upper s = map upper_char s"

fun split_on :: "char \<Rightarrow> string \<Rightarrow> string list" where
  \<comment> \<open>\<^verbatim>\<open>s.split(sep)\<close> for a separator of one character\<close>
  "split_on sep [] = [[]]"
| "split_on sep (c # cs) =
     (if c = sep then [] # split_on sep cs
      else (case split_on sep cs of
              [] \<Rightarrow> [[c]]
            | p # ps \<Rightarrow> (c # p) # ps))"

definition contains :: "string \<Rightarrow> string \<Rightarrow> bool" where
  \<comment> \<open>\<^verbatim>\<open>needle in hay\<close>\<close>
  "contains needle hay = sublist needle hay"

subsection \<open>\<^verbatim>\<open>int(s)\<close> and \<^verbatim>\<open>str(n)\<close>\<close>

definition isdigit :: "char \<Rightarrow> bool" where
  "isdigit c = (c \<in> set ''0123456789'')"

definition digit_val :: "char \<Rightarrow> nat" where
  "digit_val c = of_char c - 48"

definition isspace_int :: "char \<Rightarrow> bool" where
  \<comment> \<open>the white space \<^verbatim>\<open>int()\<close> itself skips around an ASCII literal\<close>
  "isspace_int c = (c \<in> set [CHR 0x09, CHR 0x0A, CHR 0x0B, CHR 0x0C, CHR 0x0D, CHR '' ''])"

fun parse_digits :: "nat \<Rightarrow> string \<Rightarrow> nat option" where
  \<comment> \<open>the rest of a literal after a digit: digits, single underscores only between digits\<close>
  "parse_digits acc [] = Some acc"
| "parse_digits acc (c # cs) =
     (if isdigit c then parse_digits (acc * 10 + digit_val c) cs
      else if c = CHR ''_'' then
        (case cs of
           [] \<Rightarrow> None
         | d # ds \<Rightarrow> if isdigit d then parse_digits (acc * 10 + digit_val d) ds else None)
      else None)"

definition parse_unsigned :: "string \<Rightarrow> nat option" where
  "parse_unsigned s =
     (case s of
        [] \<Rightarrow> None
      | c # cs \<Rightarrow> if isdigit c then parse_digits (digit_val c) cs else None)"

definition py_int :: "string \<Rightarrow> int option" where
  \<comment> \<open>\<^verbatim>\<open>int(s)\<close> in base 10; \<open>None\<close> is the ValueError\<close>
  "py_int s =
     (case rev (dropWhile isspace_int (rev (dropWhile isspace_int s))) of
        [] \<Rightarrow> None
      | c # cs \<Rightarrow>
          if c = CHR ''-'' then map_option (\<lambda>n. - int n) (parse_unsigned cs)
          else if c = CHR ''+'' then map_option int (parse_unsigned cs)
          else map_option int (parse_unsigned (c # cs)))"

fun str_nat :: "nat \<Rightarrow> string" where
  "str_nat n =
     (if n < 10 then [char_of (48 + n)]
      else str_nat (n div 10) @ [char_of (48 + n mod 10)])"

declare str_nat.simps [simp del]

definition str_int :: "int \<Rightarrow> string" where
  "str_int i = (if i < 0 then CHR ''-'' # str_nat (nat (- i)) else str_nat (nat i))"

section \<open>Image catalog discovery\<close>

text \<open>
  What the program writes: \<open>Print\<close> for \<^verbatim>\<open>print\<close> (colour codes left out),
  \<open>Prompt\<close> for the prompt of \<^verbatim>\<open>input\<close>, and the logger's records.
\<close>

datatype out = Print string | Prompt string | LogInfo string | LogError string

datatype path = Path (parent: string) (name: string)

datatype node = File | Dir "string list"

type_synonym filesystem = "string \<rightharpoonup> node"

definition supported_extensions :: "string list" where
  "supported_extensions = [''.jpg'', ''.jpeg'', ''.png'', ''.bmp'', ''.gif'']"

definition glob :: "filesystem \<Rightarrow> string \<Rightarrow> string \<Rightarrow> path list" where
  \<comment> \<open>\<^verbatim>\<open>Path(d).glob("*" + ext)\<close> on a case-sensitive file system: the entries of the
      directory whose name ends with \<open>ext\<close>, in listing order; nothing for a path that is
      not a directory\<close>
  "glob fs d ext =
     (case fs d of
        Some (Dir entries) \<Rightarrow> map (Path d) (filter (suffix ext) entries)
      | _ \<Rightarrow> [])"

definition find_images :: "filesystem \<Rightarrow> string \<Rightarrow> out list \<times> path list" where
  \<comment> \<open>the paths found share their parent, so \<^verbatim>\<open>sorted\<close> orders them by name\<close>
  "find_images fs images_dir =
     (if fs images_dir = None
      then ([LogError (''Images directory not found: '' @ images_dir)], [])
      else ([], sort_key name
                  (concat (map (\<lambda>ext. glob fs images_dir ext @ glob fs images_dir (upper ext))
                               supported_extensions))))"


section \<open>Exceptions and the terminal\<close>

text \<open>
  The exceptions the session can meet. All but \<open>KeyboardInterrupt\<close> are subclasses of
  \<^verbatim>\<open>Exception\<close>. The string is the text \<^verbatim>\<open>str(e)\<close> gives; for the error of
  \<^verbatim>\<open>int(s)\<close> the literal \<open>s\<close> stands for the message.
\<close>

datatype exn =
    KeyboardInterrupt
  | EOFError
  | ValueError string
  | KeyError string
  | IndexError
  | TypeError
  | OtherError string

fun str_exn :: "exn \<Rightarrow> string" where
  "str_exn KeyboardInterrupt = []"
| "str_exn EOFError = ''EOF when reading a line''"
| "str_exn (ValueError msg) = msg"
| "str_exn (KeyError k) = k"
| "str_exn IndexError = ''list index out of range''"
| "str_exn TypeError = []"
| "str_exn (OtherError msg) = msg"

text \<open>
  Standard input is a finite script of events: a line typed, or Ctrl-C while the program
  waits. At its end \<^verbatim>\<open>input()\<close> raises \<open>EOFError\<close>. The field \<open>written\<close> is
  everything written so far, and \<open>prompts\<close> every prompt handed to the model so far.
\<close>

datatype stdin_event = Line string | CtrlC

datatype media = Image path | Text string

record world =
  stdin :: "stdin_event list"
  written :: "out list"
  prompts :: "media list list"

definition emit :: "out list \<Rightarrow> world \<Rightarrow> world" where
  "emit outs w = w\<lparr>written := written w @ outs\<rparr>"

definition input_py :: "string \<Rightarrow> world \<Rightarrow> (exn + string) \<times> world" where
  "input_py prompt w =
     (let w1 = emit [Prompt prompt] w in
      case stdin w1 of
        [] \<Rightarrow> (Inl EOFError, w1)
      | Line s # rest \<Rightarrow> (Inr s, w1\<lparr>stdin := rest\<rparr>)
      | CtrlC # rest \<Rightarrow> (Inl KeyboardInterrupt, w1\<lparr>stdin := rest\<rparr>))"


section \<open>Image selection and the text query\<close>

fun display_entries ::
  "(path \<Rightarrow> exn + nat) \<Rightarrow> (nat \<Rightarrow> string) \<Rightarrow> nat \<Rightarrow> path list \<Rightarrow> world \<Rightarrow> (exn + unit) \<times> world"
where
  \<comment> \<open>the loop of \<^verbatim>\<open>display_images\<close>; \<open>stat\<close> is \<^verbatim>\<open>img_path.stat().st_size\<close> and
      \<open>fmt\<close> the text of a size in bytes as kilobytes with one decimal\<close>
  "display_entries stat fmt idx [] w = (Inr (), w)"
| "display_entries stat fmt idx (img_path # rest) w =
     (case stat img_path of
        Inl e \<Rightarrow> (Inl e, w)
      | Inr file_size \<Rightarrow>
          display_entries stat fmt (Suc idx) rest
            (emit [Print (''  ['' @ str_nat idx @ ''] '' @ name img_path @ '' ('' @
                          fmt file_size @ '' KB)'')] w))"

definition display_images ::
  "(path \<Rightarrow> exn + nat) \<Rightarrow> (nat \<Rightarrow> string) \<Rightarrow> path list \<Rightarrow> world \<Rightarrow> (exn + unit) \<times> world"
where
  "display_images stat fmt image_files w =
     (case display_entries stat fmt 1 image_files
             (emit [Print ''\<newline>=== Available Images ===''] w) of
        (Inl e, w1) \<Rightarrow> (Inl e, w1)
      | (Inr u, w1) \<Rightarrow> (Inr (), emit [Print []] w1))"

fun select_indices :: "path list \<Rightarrow> int list \<Rightarrow> path list \<Rightarrow> int + path list" where
  \<comment> \<open>the loop over \<^verbatim>\<open>indices\<close>: \<open>Inl idx\<close> at the first index out of range\<close>
  "select_indices image_files [] selected = Inr selected"
| "select_indices image_files (idx # rest) selected =
     (if 1 \<le> idx \<and> idx \<le> int (length image_files)
      then select_indices image_files rest (selected @ [image_files ! nat (idx - 1)])
      else Inl idx)"

datatype 'a ctl = Return 'a | Again

definition select_body :: "path list \<Rightarrow> string \<Rightarrow> out list \<times> path list ctl" where
  \<comment> \<open>one round of the loop of \<^verbatim>\<open>select_images\<close> on the stripped line \<open>selection\<close>:
      what it prints, and whether it returns or prompts again\<close>
  "select_body image_files selection =
     (if selection = [] then ([Print ''Please enter a selection.''], Again)
      else if lower selection = ''all'' then ([], Return image_files)
      else
        (case those (map (\<lambda>idx. py_int (strip idx)) (split_on CHR '','' selection)) of
           Some indices \<Rightarrow>
             (case select_indices image_files indices [] of
                Inl idx \<Rightarrow> ([Print (''Invalid index: '' @ str_int idx)], Return [])
              | Inr selected \<Rightarrow> if selected \<noteq> [] then ([], Return selected) else ([], Again))
         | None \<Rightarrow>
             (let matches = filter (\<lambda>img. contains (lower selection) (lower (name img)))
                                   image_files
              in if matches \<noteq> [] then ([], Return matches)
                 else ([Print (''Could not find image matching: '' @ selection)], Again))))"

function select_images :: "path list \<Rightarrow> world \<Rightarrow> (exn + path list) \<times> world" where
  "select_images image_files w =
     (case input_py ''Select image(s) [number or 'all']: '' w of
        (Inl e, w1) \<Rightarrow> (Inl e, w1)
      | (Inr line, w1) \<Rightarrow>
          (case select_body image_files (strip line) of
             (outs, Return selected) \<Rightarrow> (Inr selected, emit outs w1)
           | (outs, Again) \<Rightarrow> select_images image_files (emit outs w1)))"
  by pat_completeness auto
termination
  by (relation "measure (\<lambda>(image_files, w). length (stdin w))")
     (auto simp: input_py_def emit_def Let_def split: list.splits stdin_event.splits)

declare select_images.simps [simp del]

definition get_text_input :: "world \<Rightarrow> (exn + string option) \<times> world" where
  "get_text_input w =
     (case input_py ''> '' (emit [Print ''\<newline>Enter your question (or 'quit' to exit):''] w) of
        (Inl e, w1) \<Rightarrow> (Inl e, w1)
      | (Inr line, w1) \<Rightarrow>
          (let text = strip line in
           if lower text \<in> set [''quit'', ''exit'', ''q''] then (Inr None, w1)
           else if text = [] then (Inr (Some []), emit [Print ''Please enter a question.''] w1)
           else (Inr (Some text), w1)))"


section \<open>Model configuration from the environment\<close>

text \<open>
  The attributes of the loaded model the configuration touches; every other attribute lives
  in the extension of the record. \<open>max_select_num_each_scale\<close> is the attribute of
  \<^verbatim>\<open>model.get_vision_tower().vision_tower.vision_model\<close>, and the five lengths are
  \<^verbatim>\<open>model.config.model_max_length\<close>, \<^verbatim>\<open>model.config.tokenizer_model_max_length\<close>,
  \<^verbatim>\<open>model.llm.config.model_max_length\<close>, \<^verbatim>\<open>model.llm.config.tokenizer_model_max_length\<close>
  and \<^verbatim>\<open>model.tokenizer.model_max_length\<close>. \<open>None\<close> is Python's \<^verbatim>\<open>None\<close>.
\<close>

record model =
  num_look_close :: "int option"
  num_token_look_close :: "int option"
  max_select_num_each_scale :: "int list option"
  look_close_mode :: "string option"
  smooth_selection_prob :: "bool option"
  config_model_max_length :: int
  config_tokenizer_model_max_length :: int
  llm_config_model_max_length :: int
  llm_config_tokenizer_model_max_length :: int
  tokenizer_model_max_length :: int

type_synonym environment = "string \<rightharpoonup> string"

text \<open>
  A run of the configuration ends in \<open>Done\<close> or raises; the model is mutated in place, so
  a raise leaves the assignments made before it.
\<close>

datatype 'm outcome = Done 'm | Raised exn 'm

definition and_then ::
  "out list \<times> 'm outcome \<Rightarrow> ('m \<Rightarrow> out list \<times> 'm outcome) \<Rightarrow> out list \<times> 'm outcome"
where
  \<comment> \<open>sequencing of two statements\<close>
  "and_then r f =
     (case r of
        (outs, Raised e m) \<Rightarrow> (outs, Raised e m)
      | (outs, Done m) \<Rightarrow> (case f m of (outs', r') \<Rightarrow> (outs @ outs', r')))"

definition set_num_look_close ::
  "environment \<Rightarrow> 'a model_scheme \<Rightarrow> out list \<times> 'a model_scheme outcome" where
  "set_num_look_close environ m =
     (case environ ''NUM_LOOK_CLOSE'' of
        None \<Rightarrow> ([], Done m)
      | Some v \<Rightarrow>
          (case py_int v of
             None \<Rightarrow> ([LogInfo (''Num look close: '' @ v)], Raised (ValueError v) m)
           | Some n \<Rightarrow> ([LogInfo (''Num look close: '' @ v)], Done (m\<lparr>num_look_close := Some n\<rparr>))))"

definition set_num_token_look_close ::
  "environment \<Rightarrow> 'a model_scheme \<Rightarrow> out list \<times> 'a model_scheme outcome" where
  "set_num_token_look_close environ m =
     (case environ ''NUM_TOKEN_LOOK_CLOSE'' of
        None \<Rightarrow> ([], Done m)
      | Some v \<Rightarrow>
          (case py_int v of
             None \<Rightarrow> ([LogInfo (''Num token look close: '' @ v)], Raised (ValueError v) m)
           | Some n \<Rightarrow> ([LogInfo (''Num token look close: '' @ v)],
                        Done (m\<lparr>num_token_look_close := Some n\<rparr>))))"

fun ints_of :: "string list \<Rightarrow> string + int list" where
  \<comment> \<open>\<^verbatim>\<open>[int(x) for x in xs]\<close>: \<open>Inl x\<close> at the first \<open>x\<close> that is no literal\<close>
  "ints_of [] = Inr []"
| "ints_of (x # xs) =
     (case py_int x of
        None \<Rightarrow> Inl x
      | Some n \<Rightarrow> (case ints_of xs of Inl y \<Rightarrow> Inl y | Inr ns \<Rightarrow> Inr (n # ns)))"

definition set_select_num_each_scale ::
  "environment \<Rightarrow> 'a model_scheme \<Rightarrow> out list \<times> 'a model_scheme outcome" where
  "set_select_num_each_scale environ m =
     (case environ ''SELECT_NUM_EACH_SCALE'' of
        None \<Rightarrow> ([], Done m)
      | Some v \<Rightarrow>
          (case ints_of (split_on CHR ''+'' v) of
             Inl x \<Rightarrow> ([LogInfo (''Select num each scale: '' @ v)], Raised (ValueError x) m)
           | Inr ns \<Rightarrow> ([LogInfo (''Select num each scale: '' @ v)],
                       Done (m\<lparr>max_select_num_each_scale := Some ns\<rparr>))))"

definition set_look_close_mode ::
  "environment \<Rightarrow> 'a model_scheme \<Rightarrow> out list \<times> 'a model_scheme outcome" where
  "set_look_close_mode environ m =
     (case environ ''LOOK_CLOSE_MODE'' of
        None \<Rightarrow> ([], Done m)
      | Some v \<Rightarrow> ([LogInfo (''Look close mode: '' @ v)], Done (m\<lparr>look_close_mode := Some v\<rparr>)))"

definition set_smooth_selection_prob ::
  "environment \<Rightarrow> 'a model_scheme \<Rightarrow> out list \<times> 'a model_scheme outcome" where
  "set_smooth_selection_prob environ m =
     (case environ ''SMOOTH_SELECTION_PROB'' of
        None \<Rightarrow> ([], Done m)
      | Some v \<Rightarrow>
          (if lower v = ''true''
           then ([LogInfo (''Smooth selection prob: '' @ v)],
                 Done (m\<lparr>smooth_selection_prob := Some True\<rparr>))
           else if lower v = ''false''
           then ([LogInfo (''Smooth selection prob: '' @ v)],
                 Done (m\<lparr>smooth_selection_prob := Some False\<rparr>))
           else ([LogInfo (''Smooth selection prob: '' @ v)],
                 Raised (ValueError (''Invalid smooth selection prob: '' @ v)) m)))"

definition adjust_context_length ::
  "environment \<Rightarrow> 'a model_scheme \<Rightarrow> out list \<times> 'a model_scheme outcome" where
  \<comment> \<open>lines 130 to 144; \<open>div\<close> on \<open>int\<close> rounds down as \<^verbatim>\<open>//\<close> does\<close>
  "adjust_context_length environ m =
     (let context_length = tokenizer_model_max_length m in
      case (case environ ''NUM_LOOK_CLOSE'' of
              None \<Rightarrow> Inr context_length
            | Some v \<Rightarrow>
                (case py_int v of
                   None \<Rightarrow> Inl (ValueError v)
                 | Some n \<Rightarrow> Inr (max context_length (n * 2560 div 4 + 1024)))) of
        Inl e \<Rightarrow> ([], Raised e m)
      | Inr context_length \<Rightarrow>
          (case (case environ ''NUM_TOKEN_LOOK_CLOSE'' of
                   None \<Rightarrow> Inr context_length
                 | Some v \<Rightarrow>
                     (case py_int v of
                        None \<Rightarrow> Inl (ValueError v)
                      | Some n \<Rightarrow> Inr (max context_length (n div 4 + 1024)))) of
             Inl e \<Rightarrow> ([], Raised e m)
           | Inr context_length \<Rightarrow>
               (let context_length = max (tokenizer_model_max_length m) context_length in
                ([], Done (m\<lparr>config_model_max_length := context_length,
                             config_tokenizer_model_max_length := context_length,
                             llm_config_model_max_length := context_length,
                             llm_config_tokenizer_model_max_length := context_length,
                             tokenizer_model_max_length := context_length\<rparr>)))))"

definition configure_ps3_and_context_length ::
  "environment \<Rightarrow> 'a model_scheme \<Rightarrow> out list \<times> 'a model_scheme outcome" where
  "configure_ps3_and_context_length environ m =
     and_then (and_then (and_then (and_then (and_then
       (set_num_look_close environ m)
       (set_num_token_look_close environ))
       (set_select_num_each_scale environ))
       (set_look_close_mode environ))
       (set_smooth_selection_prob environ))
       (adjust_context_length environ)"


section \<open>The interactive session\<close>

text \<open>
  What the program is given: the parsed command line, and the collaborators it does not
  implement. \<open>load\<close> is \<^verbatim>\<open>llava.load\<close>, \<open>conv_templates\<close> the table of conversation
  templates, \<open>generate_content\<close> the model's answer to a prompt under the chosen template,
  \<open>stat_size\<close> the size of a file and \<open>fmt_kb\<close> the text of a size as kilobytes.
\<close>

record args =
  model_path :: string
  images_dir :: string
  conv_mode :: string
  lora_path :: "string option"

record ('a, 'c) system =
  environ :: environment
  files :: filesystem
  stat_size :: "path \<Rightarrow> exn + nat"
  fmt_kb :: "nat \<Rightarrow> string"
  load :: "string \<Rightarrow> string option \<Rightarrow> exn + 'a model_scheme"
  conv_templates :: "string \<rightharpoonup> 'c"
  generate_content :: "'c \<Rightarrow> 'a model_scheme \<Rightarrow> media list \<Rightarrow> exn + string"

datatype loop_ctl = Continue | Break

definition rule60 :: string where
  \<comment> \<open>\<^verbatim>\<open>"=" * 60\<close>\<close>
  "rule60 = replicate 60 CHR ''=''"

definition turn ::
  "('a, 'c) system \<Rightarrow> 'c \<Rightarrow> 'a model_scheme \<Rightarrow> path list \<Rightarrow> world \<Rightarrow> (exn + loop_ctl) \<times> world"
where
  \<comment> \<open>the body of the \<^verbatim>\<open>try\<close> in the loop of \<^verbatim>\<open>main\<close>: \<open>Inl e\<close> when \<open>e\<close> is raised,
      \<open>Inr Break\<close> at \<^verbatim>\<open>break\<close>, \<open>Inr Continue\<close> at \<^verbatim>\<open>continue\<close> and at its end\<close>
  "turn sys conv m image_files w =
     (case display_images (stat_size sys) (fmt_kb sys) image_files w of
        (Inl e, w1) \<Rightarrow> (Inl e, w1)
      | (Inr u, w1) \<Rightarrow>
          (case select_images image_files w1 of
             (Inl e, w2) \<Rightarrow> (Inl e, w2)
           | (Inr selected_images, w2) \<Rightarrow>
               if selected_images = [] then (Inr Continue, w2)
               else
                 (case get_text_input
                         (emit (Print (''\<newline>Selected '' @ str_nat (length selected_images) @
                                       '' image(s):'')
                                # map (\<lambda>img. Print (''  - '' @ name img)) selected_images) w2) of
                    (Inl e, w3) \<Rightarrow> (Inl e, w3)
                  | (Inr None, w3) \<Rightarrow> (Inr Break, emit [Print ''\<newline>Exiting...''] w3)
                  | (Inr (Some text), w3) \<Rightarrow>
                      if text = [] then (Inr Continue, w3)
                      else
                        (let prompt = map Image selected_images @ [Text text];
                             w4 = (emit [Print ''\<newline>[Processing...]''] w3)
                                    \<lparr>prompts := prompts w3 @ [prompt]\<rparr>
                         in case generate_content sys conv m prompt of
                              Inl e \<Rightarrow> (Inl e, w4)
                            | Inr response \<Rightarrow>
                                (Inr Continue,
                                 emit [Print ''\<newline>=== Response ==='', Print response,
                                       Print (rule60 @ ''\<newline>'')] w4)))))"

fun main_loop ::
  "('a, 'c) system \<Rightarrow> 'c \<Rightarrow> 'a model_scheme \<Rightarrow> path list \<Rightarrow> nat \<Rightarrow> world \<Rightarrow> world option"
where
  \<comment> \<open>\<^verbatim>\<open>while True\<close> with its two handlers; the number bounds the turns, and \<open>None\<close> is a
      loop still running after that many\<close>
  "main_loop sys conv m image_files 0 w = None"
| "main_loop sys conv m image_files (Suc fuel) w =
     (case turn sys conv m image_files w of
        (Inl KeyboardInterrupt, w1) \<Rightarrow> Some (emit [Print ''\<newline>\<newline>Interrupted. Exiting...''] w1)
      | (Inl e, w1) \<Rightarrow>
          main_loop sys conv m image_files fuel
            (emit [LogError (''Error during inference: '' @ str_exn e),
                   Print (''\<newline>Error: '' @ str_exn e)] w1)
      | (Inr Break, w1) \<Rightarrow> Some w1
      | (Inr Continue, w1) \<Rightarrow> main_loop sys conv m image_files fuel w1)"

text \<open>
  How the process ends: \<open>Exit n\<close> with status \<open>n\<close> (\<open>0\<close> when \<^verbatim>\<open>main\<close> returns), or an
  exception nothing caught, which the interpreter reports before it exits.
\<close>

datatype finish = Exit nat | Uncaught exn

definition main :: "('a, 'c) system \<Rightarrow> args \<Rightarrow> nat \<Rightarrow> world \<Rightarrow> (finish \<times> world) option" where
  \<comment> \<open>\<^verbatim>\<open>main\<close> after \<^verbatim>\<open>parse_args\<close>\<close>
  "main sys a fuel w =
     (let w1 = emit [Print (''\<newline>'' @ rule60), Print ''  VILA Local Image Analyzer'',
                     Print (rule60 @ ''\<newline>''),
                     LogInfo (''Loading model from: '' @ model_path a)] w
      in case (case lora_path a of
                 None \<Rightarrow> load sys (model_path a) None
               | Some l \<Rightarrow> load sys l (Some (model_path a))) of
           Inl e \<Rightarrow> Some (Uncaught e, w1)
         | Inr m0 \<Rightarrow>
             (case configure_ps3_and_context_length (environ sys) m0 of
                (outs, Raised e m) \<Rightarrow>
                  Some (Uncaught e, emit (LogInfo ''Model loaded successfully'' # outs) w1)
              | (outs, Done m) \<Rightarrow>
                  (let w2 = emit (LogInfo ''Model loaded successfully'' # outs) w1 in
                   case conv_templates sys (conv_mode a) of
                     None \<Rightarrow> Some (Uncaught (KeyError (conv_mode a)), w2)
                   | Some conv \<Rightarrow>
                       (case find_images (files sys) (images_dir a) of
                          (logs, image_files) \<Rightarrow>
                            (let w3 = emit (LogInfo (''Using conversation mode: '' @ conv_mode a)
                                            # logs) w2
                             in if image_files = []
                                then Some (Exit 1,
                                       emit [LogError (''No images found in '' @ images_dir a),
                                             LogInfo ''Please add some images (.jpg, .jpeg, .png) to the images/ folder'']
                                            w3)
                                else
                                  (case main_loop sys conv m image_files fuel
                                          (emit [LogInfo (''Found '' @ str_nat (length image_files) @
                                                          '' image(s) in '' @ images_dir a),
                                                 Print ''\<newline>Interactive mode started. Type 'quit' to exit.\<newline>'']
                                                w3) of
                                     None \<Rightarrow> None
                                   | Some w4 \<Rightarrow> Some (Exit 0, w4)))))))"

section \<open>The remote client\<close>

datatype json =
    JNull
  | JBool bool
  | JNum int
  | JStr string
  | JArr "json list"
  | JObj "(string \<times> json) list"

record http_post =
  url :: string
  headers :: "(string \<times> string) list"
  body :: json

definition client_url :: string where
  "client_url = ''http://localhost:8000/chat/completions''"

definition client_headers :: "(string \<times> string) list" where
  "client_headers = [(''Content-Type'', ''application/json''),
                     (''Authorization'', ''Bearer fake-key'')]"

definition client_data :: json where
  "client_data =
     JObj [(''model'', JStr ''NVILA-Lite-8B''),
           (''messages'',
            JArr [JObj [(''role'', JStr ''user''),
                        (''content'',
                         JArr [JObj [(''type'', JStr ''text''),
                                     (''text'', JStr ''What's in this image?'')],
                               JObj [(''type'', JStr ''image_url''),
                                     (''image_url'',
                                      JObj [(''url'', JStr ''https://resources.chimhaha.net/article/1697450293398-9qc8qommtjf.jpg'')])]])]])]"

definition getitem_key :: "json \<Rightarrow> string \<Rightarrow> exn + json" where
  \<comment> \<open>\<^verbatim>\<open>v[k]\<close> for a string \<open>k\<close>\<close>
  "getitem_key v k =
     (case v of
        JObj kvs \<Rightarrow> (case map_of kvs k of None \<Rightarrow> Inl (KeyError k) | Some x \<Rightarrow> Inr x)
      | _ \<Rightarrow> Inl TypeError)"

definition getitem_0 :: "json \<Rightarrow> exn + json" where
  \<comment> \<open>\<^verbatim>\<open>v[0]\<close>; the keys of a decoded object are strings, so \<open>0\<close> is never one\<close>
  "getitem_0 v =
     (case v of
        JArr xs \<Rightarrow> (case xs of [] \<Rightarrow> Inl IndexError | x # _ \<Rightarrow> Inr x)
      | JStr s \<Rightarrow> (case s of [] \<Rightarrow> Inl IndexError | c # _ \<Rightarrow> Inr (JStr [c]))
      | JObj kvs \<Rightarrow> Inl (KeyError ''0'')
      | _ \<Rightarrow> Inl TypeError)"

text \<open>
  A run of the script: the requests it sent, the values it handed to \<^verbatim>\<open>print\<close>, and the
  exception that ended it if one did. \<open>server\<close> answers a request with the decoded body of
  the response, or with the exception \<^verbatim>\<open>requests.post\<close> or \<^verbatim>\<open>response.json()\<close> raises.
\<close>

record client_run =
  sent :: "http_post list"
  printed :: "json list"
  failed :: "exn option"

definition client :: "(http_post \<Rightarrow> exn + json) \<Rightarrow> client_run" where
  "client server =
     (let request = \<lparr>url = client_url, headers = client_headers, body = client_data\<rparr> in
      case server request of
        Inl e \<Rightarrow> \<lparr>sent = [request], printed = [], failed = Some e\<rparr>
      | Inr result \<Rightarrow>
          (case getitem_key result ''choices'' of
             Inl e \<Rightarrow> \<lparr>sent = [request], printed = [], failed = Some e\<rparr>
           | Inr choices \<Rightarrow>
               (case getitem_0 choices of
                  Inl e \<Rightarrow> \<lparr>sent = [request], printed = [], failed = Some e\<rparr>
                | Inr choice \<Rightarrow>
                    (case getitem_key choice ''message'' of
                       Inl e \<Rightarrow> \<lparr>sent = [request], printed = [], failed = Some e\<rparr>
                     | Inr message \<Rightarrow>
                         (case getitem_key message ''content'' of
                            Inl e \<Rightarrow> \<lparr>sent = [request], printed = [], failed = Some e\<rparr>
                          | Inr content \<Rightarrow>
                              \<lparr>sent = [request], printed = [content], failed = None\<rparr>)))))"


section \<open>Notions used in the statements\<close>

text \<open>
  The model a run ends with, and the lower bounds of the context length as the
  specification words them: one from the look-close count, one from the token-look-close
  count, each only when its variable is present and converts.
\<close>

fun model_of :: "'m outcome \<Rightarrow> 'm" where
  "model_of (Done m) = m"
| "model_of (Raised e m) = m"

definition derived_bounds :: "environment \<Rightarrow> int list" where
  "derived_bounds env =
     (case Option.bind (env ''NUM_LOOK_CLOSE'') py_int of
        None \<Rightarrow> []
      | Some n \<Rightarrow> [n * 2560 div 4 + 1024]) @
     (case Option.bind (env ''NUM_TOKEN_LOOK_CLOSE'') py_int of
        None \<Rightarrow> []
      | Some n \<Rightarrow> [n div 4 + 1024])"

definition untouched :: "environment \<Rightarrow> 'a model_scheme \<Rightarrow> 'a model_scheme \<Rightarrow> bool" where
  "untouched env m m' =
     (model.more m' = model.more m \<and>
      (env ''NUM_LOOK_CLOSE'' = None \<longrightarrow> num_look_close m' = num_look_close m) \<and>
      (env ''NUM_TOKEN_LOOK_CLOSE'' = None \<longrightarrow> num_token_look_close m' = num_token_look_close m) \<and>
      (env ''SELECT_NUM_EACH_SCALE'' = None \<longrightarrow>
         max_select_num_each_scale m' = max_select_num_each_scale m) \<and>
      (env ''LOOK_CLOSE_MODE'' = None \<longrightarrow> look_close_mode m' = look_close_mode m) \<and>
      (env ''SMOOTH_SELECTION_PROB'' = None \<longrightarrow>
         smooth_selection_prob m' = smooth_selection_prob m))"

definition raises_only_ValueError :: "out list \<times> 'm outcome \<Rightarrow> bool" where
  "raises_only_ValueError r =
     (case snd r of Done m \<Rightarrow> True | Raised e m \<Rightarrow> (case e of ValueError msg \<Rightarrow> True | _ \<Rightarrow> False))"

definition example_model :: model where
  "example_model =
     \<lparr>num_look_close = None, num_token_look_close = None, max_select_num_each_scale = None,
        look_close_mode = None, smooth_selection_prob = None, config_model_max_length = 4096,
        config_tokenizer_model_max_length = 4096, llm_config_model_max_length = 4096,
        llm_config_tokenizer_model_max_length = 4096, tokenizer_model_max_length = 4096\<rparr>"

definition example_system ::
  "environment \<Rightarrow> (media list \<Rightarrow> exn + string) \<Rightarrow> (unit, unit) system" where
  "example_system env answer =
     \<lparr>environ = env,
        files = [''images'' \<mapsto> Dir [''b.png'', ''a.JPG'', ''notes.txt'']],
        stat_size = (\<lambda>p. Inr 2048),
        fmt_kb = (\<lambda>n. ''2.0''),
        load = (\<lambda>p b. Inr example_model),
        conv_templates = [''vicuna_v1'' \<mapsto> ()],
        generate_content = (\<lambda>conv m. answer)\<rparr>"

definition example_args :: args where
  "example_args =
     \<lparr>model_path = ''NVILA-Lite-8B'', images_dir = ''images'', conv_mode = ''vicuna_v1'',
        lora_path = None\<rparr>"

definition example_world :: "stdin_event list \<Rightarrow> world" where
  "example_world events = \<lparr>stdin = events, written = [], prompts = []\<rparr>"

definition ended_by_quit :: "world \<Rightarrow> world \<Rightarrow> bool" where
  "ended_by_quit w w' =
     (last (written w') = Print ''\<newline>Exiting...'' \<and>
      (\<exists>s. Line s \<in> set (stdin w) \<and> lower (strip s) \<in> {''quit'', ''exit'', ''q''}))"

definition ended_by_interrupt ::
  "('a, 'c) system \<Rightarrow> 'c \<Rightarrow> 'a model_scheme \<Rightarrow> world \<Rightarrow> world \<Rightarrow> bool" where
  "ended_by_interrupt sys conv m w w' =
     (last (written w') = Print ''\<newline>\<newline>Interrupted. Exiting...'' \<and>
      (CtrlC \<in> set (stdin w) \<or>
       (\<exists>p. stat_size sys p = Inl KeyboardInterrupt) \<or>
       (\<exists>p. generate_content sys conv m p = Inl KeyboardInterrupt)))"

definition accepted :: "environment \<Rightarrow> bool" where
  "accepted env =
     ((case env ''NUM_LOOK_CLOSE'' of None \<Rightarrow> True | Some v \<Rightarrow> py_int v \<noteq> None) \<and>
      (case env ''NUM_TOKEN_LOOK_CLOSE'' of None \<Rightarrow> True | Some v \<Rightarrow> py_int v \<noteq> None) \<and>
      (case env ''SELECT_NUM_EACH_SCALE'' of None \<Rightarrow> True
       | Some v \<Rightarrow> \<not> isl (ints_of (split_on CHR ''+'' v))) \<and>
      (case env ''SMOOTH_SELECTION_PROB'' of None \<Rightarrow> True
       | Some v \<Rightarrow> lower v = ''true'' \<or> lower v = ''false''))"

section \<open>Properties of the text query\<close>





section \<open>Properties of the image selection\<close>












section \<open>Properties of the configuration\<close>

lemma and_then_Done:
  assumes "and_then r f = (outs, Done m')"
  obtains o1 m1 o2 where "r = (o1, Done m1)" "f m1 = (o2, Done m')" "outs = o1 @ o2"
  using assms by (auto simp: and_then_def split: prod.splits outcome.splits)

lemma and_then_Raised:
  assumes "and_then r f = (outs, Raised e m')"
  shows "r = (outs, Raised e m') \<or>
         (\<exists>o1 m1 o2. r = (o1, Done m1) \<and> f m1 = (o2, Raised e m') \<and> outs = o1 @ o2)"
  using assms by (auto simp: and_then_def split: prod.splits outcome.splits)

lemma set_num_look_close_Done:
  "set_num_look_close env m = (outs, Done m') \<Longrightarrow>
   m' = m\<lparr>num_look_close :=
            (case env ''NUM_LOOK_CLOSE'' of None \<Rightarrow> num_look_close m | Some v \<Rightarrow> py_int v)\<rparr> \<and>
   (case env ''NUM_LOOK_CLOSE'' of None \<Rightarrow> True | Some v \<Rightarrow> py_int v \<noteq> None)"
  by (auto simp: set_num_look_close_def split: option.splits)

lemma set_num_token_look_close_Done:
  "set_num_token_look_close env m = (outs, Done m') \<Longrightarrow>
   m' = m\<lparr>num_token_look_close :=
            (case env ''NUM_TOKEN_LOOK_CLOSE'' of None \<Rightarrow> num_token_look_close m
             | Some v \<Rightarrow> py_int v)\<rparr> \<and>
   (case env ''NUM_TOKEN_LOOK_CLOSE'' of None \<Rightarrow> True | Some v \<Rightarrow> py_int v \<noteq> None)"
  by (auto simp: set_num_token_look_close_def split: option.splits)

lemma set_select_num_each_scale_Done:
  "set_select_num_each_scale env m = (outs, Done m') \<Longrightarrow>
   m' = m\<lparr>max_select_num_each_scale :=
            (case env ''SELECT_NUM_EACH_SCALE'' of None \<Rightarrow> max_select_num_each_scale m
             | Some v \<Rightarrow> (case ints_of (split_on CHR ''+'' v) of Inl x \<Rightarrow> None | Inr ns \<Rightarrow> Some ns))\<rparr> \<and>
   (case env ''SELECT_NUM_EACH_SCALE'' of None \<Rightarrow> True
    | Some v \<Rightarrow> \<not> isl (ints_of (split_on CHR ''+'' v)))"
  by (auto simp: set_select_num_each_scale_def split: option.splits sum.splits)

lemma set_look_close_mode_Done:
  "set_look_close_mode env m = (outs, Done m') \<Longrightarrow>
   m' = m\<lparr>look_close_mode :=
            (case env ''LOOK_CLOSE_MODE'' of None \<Rightarrow> look_close_mode m | Some v \<Rightarrow> Some v)\<rparr>"
  by (auto simp: set_look_close_mode_def split: option.splits)

lemma set_smooth_selection_prob_Done:
  "set_smooth_selection_prob env m = (outs, Done m') \<Longrightarrow>
   m' = m\<lparr>smooth_selection_prob :=
            (case env ''SMOOTH_SELECTION_PROB'' of None \<Rightarrow> smooth_selection_prob m
             | Some v \<Rightarrow> Some (lower v = ''true''))\<rparr> \<and>
   (case env ''SMOOTH_SELECTION_PROB'' of None \<Rightarrow> True
    | Some v \<Rightarrow> lower v = ''true'' \<or> lower v = ''false'')"
  by (auto simp: set_smooth_selection_prob_def split: option.splits if_splits)

lemma adjust_context_length_Done:
  "adjust_context_length env m = (outs, Done m') \<Longrightarrow>
   m' = m\<lparr>config_model_max_length := Max (set (tokenizer_model_max_length m # derived_bounds env)),
           config_tokenizer_model_max_length := Max (set (tokenizer_model_max_length m # derived_bounds env)),
           llm_config_model_max_length := Max (set (tokenizer_model_max_length m # derived_bounds env)),
           llm_config_tokenizer_model_max_length := Max (set (tokenizer_model_max_length m # derived_bounds env)),
           tokenizer_model_max_length := Max (set (tokenizer_model_max_length m # derived_bounds env))\<rparr>"
  by (auto simp: adjust_context_length_def derived_bounds_def Let_def
           split: option.splits sum.splits)

lemma configure_Done:
  assumes "configure_ps3_and_context_length env m = (outs, Done m')"
  shows "m' = m\<lparr>num_look_close :=
                   (case env ''NUM_LOOK_CLOSE'' of None \<Rightarrow> num_look_close m | Some v \<Rightarrow> py_int v),
                 num_token_look_close :=
                   (case env ''NUM_TOKEN_LOOK_CLOSE'' of None \<Rightarrow> num_token_look_close m
                    | Some v \<Rightarrow> py_int v),
                 max_select_num_each_scale :=
                   (case env ''SELECT_NUM_EACH_SCALE'' of None \<Rightarrow> max_select_num_each_scale m
                    | Some v \<Rightarrow> (case ints_of (split_on CHR ''+'' v) of Inl x \<Rightarrow> None | Inr ns \<Rightarrow> Some ns)),
                 look_close_mode :=
                   (case env ''LOOK_CLOSE_MODE'' of None \<Rightarrow> look_close_mode m | Some v \<Rightarrow> Some v),
                 smooth_selection_prob :=
                   (case env ''SMOOTH_SELECTION_PROB'' of None \<Rightarrow> smooth_selection_prob m
                    | Some v \<Rightarrow> Some (lower v = ''true'')),
                 config_model_max_length := Max (set (tokenizer_model_max_length m # derived_bounds env)),
                 config_tokenizer_model_max_length := Max (set (tokenizer_model_max_length m # derived_bounds env)),
                 llm_config_model_max_length := Max (set (tokenizer_model_max_length m # derived_bounds env)),
                 llm_config_tokenizer_model_max_length := Max (set (tokenizer_model_max_length m # derived_bounds env)),
                 tokenizer_model_max_length := Max (set (tokenizer_model_max_length m # derived_bounds env))\<rparr>"
proof -
  from assms obtain o5 m5 o6 where
    r5: "and_then (and_then (and_then (and_then (set_num_look_close env m)
           (set_num_token_look_close env)) (set_select_num_each_scale env))
           (set_look_close_mode env)) (set_smooth_selection_prob env) = (o5, Done m5)"
    and s6: "adjust_context_length env m5 = (o6, Done m')"
    unfolding configure_ps3_and_context_length_def by (rule and_then_Done)
  from r5 obtain o4 m4 o5' where
    r4: "and_then (and_then (and_then (set_num_look_close env m)
           (set_num_token_look_close env)) (set_select_num_each_scale env))
           (set_look_close_mode env) = (o4, Done m4)"
    and s5: "set_smooth_selection_prob env m4 = (o5', Done m5)"
    by (rule and_then_Done)
  from r4 obtain o3 m3 o4' where
    r3: "and_then (and_then (set_num_look_close env m)
           (set_num_token_look_close env)) (set_select_num_each_scale env) = (o3, Done m3)"
    and s4: "set_look_close_mode env m3 = (o4', Done m4)"
    by (rule and_then_Done)
  from r3 obtain o2 m2 o3' where
    r2: "and_then (set_num_look_close env m) (set_num_token_look_close env) = (o2, Done m2)"
    and s3: "set_select_num_each_scale env m2 = (o3', Done m3)"
    by (rule and_then_Done)
  from r2 obtain o1 m1 o2' where
    s1: "set_num_look_close env m = (o1, Done m1)"
    and s2: "set_num_token_look_close env m1 = (o2', Done m2)"
    by (rule and_then_Done)
  note steps = set_num_look_close_Done [OF s1, THEN conjunct1]
    set_num_token_look_close_Done [OF s2, THEN conjunct1]
    set_select_num_each_scale_Done [OF s3, THEN conjunct1]
    set_look_close_mode_Done [OF s4]
    set_smooth_selection_prob_Done [OF s5, THEN conjunct1]
    adjust_context_length_Done [OF s6]
  show ?thesis
    by (simp add: steps cong: option.case_cong)
qed

lemma configure_parses:
  assumes "configure_ps3_and_context_length env m = (outs, Done m')"
  shows "(case env ''NUM_LOOK_CLOSE'' of None \<Rightarrow> True | Some v \<Rightarrow> py_int v \<noteq> None) \<and>
         (case env ''NUM_TOKEN_LOOK_CLOSE'' of None \<Rightarrow> True | Some v \<Rightarrow> py_int v \<noteq> None) \<and>
         (case env ''SELECT_NUM_EACH_SCALE'' of None \<Rightarrow> True
          | Some v \<Rightarrow> \<not> isl (ints_of (split_on CHR ''+'' v))) \<and>
         (case env ''SMOOTH_SELECTION_PROB'' of None \<Rightarrow> True
          | Some v \<Rightarrow> lower v = ''true'' \<or> lower v = ''false'')"
proof -
  from assms obtain o5 m5 o6 where
    r5: "and_then (and_then (and_then (and_then (set_num_look_close env m)
           (set_num_token_look_close env)) (set_select_num_each_scale env))
           (set_look_close_mode env)) (set_smooth_selection_prob env) = (o5, Done m5)"
    unfolding configure_ps3_and_context_length_def by (rule and_then_Done)
  from r5 obtain o4 m4 o5' where
    r4: "and_then (and_then (and_then (set_num_look_close env m)
           (set_num_token_look_close env)) (set_select_num_each_scale env))
           (set_look_close_mode env) = (o4, Done m4)"
    and s5: "set_smooth_selection_prob env m4 = (o5', Done m5)"
    by (rule and_then_Done)
  from r4 obtain o3 m3 o4' where
    r3: "and_then (and_then (set_num_look_close env m)
           (set_num_token_look_close env)) (set_select_num_each_scale env) = (o3, Done m3)"
    by (rule and_then_Done)
  from r3 obtain o2 m2 o3' where
    r2: "and_then (set_num_look_close env m) (set_num_token_look_close env) = (o2, Done m2)"
    and s3: "set_select_num_each_scale env m2 = (o3', Done m3)"
    by (rule and_then_Done)
  from r2 obtain o1 m1 o2' where
    s1: "set_num_look_close env m = (o1, Done m1)"
    and s2: "set_num_token_look_close env m1 = (o2', Done m2)"
    by (rule and_then_Done)
  show ?thesis
    using set_num_look_close_Done [OF s1, THEN conjunct2]
      set_num_token_look_close_Done [OF s2, THEN conjunct2]
      set_select_num_each_scale_Done [OF s3, THEN conjunct2]
      set_smooth_selection_prob_Done [OF s5, THEN conjunct2]
    by simp
qed

lemma untouched_trans: "untouched env a b \<Longrightarrow> untouched env b c \<Longrightarrow> untouched env a c"
  by (simp add: untouched_def)

lemma untouched_steps:
  "untouched env m (model_of (snd (set_num_look_close env m)))"
  "untouched env m (model_of (snd (set_num_token_look_close env m)))"
  "untouched env m (model_of (snd (set_select_num_each_scale env m)))"
  "untouched env m (model_of (snd (set_look_close_mode env m)))"
  "untouched env m (model_of (snd (set_smooth_selection_prob env m)))"
  "untouched env m (model_of (snd (adjust_context_length env m)))"
  by (simp_all add: untouched_def set_num_look_close_def set_num_token_look_close_def
        set_select_num_each_scale_def set_look_close_mode_def set_smooth_selection_prob_def
        adjust_context_length_def Let_def split: option.splits sum.splits)

lemma untouched_and_then:
  assumes "untouched env m (model_of (snd r))"
    and "\<And>m1. untouched env m1 (model_of (snd (f m1)))"
  shows "untouched env m (model_of (snd (and_then r f)))"
proof (cases r)
  case (Pair outs res)
  show ?thesis
  proof (cases res)
    case (Done m1)
    have "untouched env m1 (model_of (snd (f m1)))"
      by (rule assms(2))
    moreover have "untouched env m m1"
      using assms(1) Pair Done by simp
    ultimately have "untouched env m (model_of (snd (f m1)))"
      using untouched_trans by blast
    then show ?thesis
      using Pair Done by (cases "f m1") (simp add: and_then_def)
  next
    case (Raised e m1)
    then show ?thesis
      using assms(1) Pair by (simp add: and_then_def)
  qed
qed

lemma untouched_configure:
  "untouched env m (model_of (snd (configure_ps3_and_context_length env m)))"
  unfolding configure_ps3_and_context_length_def
  by (intro untouched_and_then untouched_steps)

lemma raises_only_ValueError_steps:
  "raises_only_ValueError (set_num_look_close env m)"
  "raises_only_ValueError (set_num_token_look_close env m)"
  "raises_only_ValueError (set_select_num_each_scale env m)"
  "raises_only_ValueError (set_look_close_mode env m)"
  by (simp_all add: raises_only_ValueError_def set_num_look_close_def
        set_num_token_look_close_def set_select_num_each_scale_def set_look_close_mode_def
        split: option.splits sum.splits)

lemma raises_only_ValueError_and_then:
  assumes "raises_only_ValueError r" and "\<And>m. raises_only_ValueError (f m)"
  shows "raises_only_ValueError (and_then r f)"
proof (cases r)
  case (Pair outs res)
  show ?thesis
  proof (cases res)
    case (Done m1)
    then show ?thesis
      using Pair assms(2) [of m1]
      by (cases "f m1") (simp add: and_then_def raises_only_ValueError_def)
  next
    case (Raised e m1)
    then show ?thesis
      using Pair assms(1) by (simp add: and_then_def raises_only_ValueError_def)
  qed
qed

lemma bad_smooth_selection_prob_raises:
  assumes "env ''SMOOTH_SELECTION_PROB'' = Some v"
    and "lower v \<noteq> ''true''" and "lower v \<noteq> ''false''"
  shows "\<exists>outs msg m'. configure_ps3_and_context_length env m = (outs, Raised (ValueError msg) m')"
proof -
  let ?before = "and_then (and_then (and_then (set_num_look_close env m)
           (set_num_token_look_close env)) (set_select_num_each_scale env))
           (set_look_close_mode env)"
  have ok: "raises_only_ValueError ?before"
    by (intro raises_only_ValueError_and_then raises_only_ValueError_steps)
  obtain outs res where b: "?before = (outs, res)"
    by (cases ?before)
  show ?thesis
  proof (cases res)
    case (Done m4)
    then show ?thesis
      using b assms
      by (simp add: configure_ps3_and_context_length_def and_then_def
            set_smooth_selection_prob_def)
  next
    case (Raised e m4)
    then obtain msg where "e = ValueError msg"
      using ok b by (auto simp: raises_only_ValueError_def split: exn.splits)
    then show ?thesis
      using b Raised by (simp add: configure_ps3_and_context_length_def and_then_def)
  qed
qed

section \<open>Properties of the session loop\<close>

lemma input_py_effect:
  assumes "input_py p w = (r, w1)"
  shows "set (stdin w1) \<subseteq> set (stdin w)"
    and "r = Inl KeyboardInterrupt \<Longrightarrow> CtrlC \<in> set (stdin w)"
    and "r = Inr s \<Longrightarrow> Line s \<in> set (stdin w)"
  using assms
  by (auto simp: input_py_def emit_def Let_def split: list.splits stdin_event.splits)

lemma display_entries_effect:
  assumes "display_entries stat fmt idx image_files w = (r, w1)"
  shows "stdin w1 = stdin w \<and> (\<forall>e. r = Inl e \<longrightarrow> (\<exists>p. stat p = Inl e))"
  using assms
proof (induction stat fmt idx image_files w rule: display_entries.induct)
  case (1 stat fmt idx w)
  then show ?case by auto
next
  case (2 stat fmt idx img_path rest w)
  show ?case
  proof (cases "stat img_path")
    case (Inl e)
    then show ?thesis using "2.prems" by auto
  next
    case (Inr file_size)
    then show ?thesis
      using "2.IH" [OF Inr] "2.prems" by (simp add: emit_def)
  qed
qed

lemma display_images_effect:
  assumes "display_images stat fmt image_files w = (r, w1)"
  shows "stdin w1 = stdin w \<and> (\<forall>e. r = Inl e \<longrightarrow> (\<exists>p. stat p = Inl e))"
proof -
  obtain r0 w0 where d: "display_entries stat fmt 1 image_files
                           (emit [Print ''\<newline>=== Available Images ===''] w) = (r0, w0)"
    by (cases "display_entries stat fmt 1 image_files
                 (emit [Print ''\<newline>=== Available Images ===''] w)")
  from display_entries_effect [OF d] assms d show ?thesis
    by (cases r0) (auto simp: display_images_def emit_def)
qed

lemma select_images_effect:
  assumes "select_images image_files w = (r, w1)"
  shows "set (stdin w1) \<subseteq> set (stdin w) \<and>
         (r = Inl KeyboardInterrupt \<longrightarrow> CtrlC \<in> set (stdin w))"
  using assms
proof (induction image_files w rule: select_images.induct)
  case (1 image_files w)
  obtain r0 w0 where i: "input_py ''Select image(s) [number or 'all']: '' w = (r0, w0)"
    by (cases "input_py ''Select image(s) [number or 'all']: '' w")
  note eff = input_py_effect [OF i]
  show ?case
  proof (cases r0)
    case (Inl e)
    then show ?thesis
      using "1.prems" i eff by (subst (asm) select_images.simps) auto
  next
    case (Inr line)
    obtain outs c where b: "select_body image_files (strip line) = (outs, c)"
      by (cases "select_body image_files (strip line)")
    show ?thesis
    proof (cases c)
      case (Return selected)
      then show ?thesis
        using "1.prems" i Inr b eff(1)
        by (subst (asm) select_images.simps) (auto simp: emit_def)
    next
      case Again
      have rec: "select_images image_files (emit outs w0) = (r, w1)"
        using "1.prems" i Inr b Again by (subst (asm) select_images.simps) simp
      have "set (stdin w1) \<subseteq> set (stdin (emit outs w0)) \<and>
            (r = Inl KeyboardInterrupt \<longrightarrow> CtrlC \<in> set (stdin (emit outs w0)))"
        using "1.IH" [OF i [symmetric] Inr b [symmetric] Again rec] .
      then show ?thesis
        using eff(1) by (auto simp: emit_def)
    qed
  qed
qed

lemma get_text_input_effect:
  assumes "get_text_input w = (r, w1)"
  shows "set (stdin w1) \<subseteq> set (stdin w) \<and>
         (r = Inl KeyboardInterrupt \<longrightarrow> CtrlC \<in> set (stdin w)) \<and>
         (r = Inr None \<longrightarrow>
            (\<exists>s. Line s \<in> set (stdin w) \<and> lower (strip s) \<in> {''quit'', ''exit'', ''q''}))"
proof -
  let ?w = "emit [Print ''\<newline>Enter your question (or 'quit' to exit):''] w"
  obtain r0 w0 where i: "input_py ''> '' ?w = (r0, w0)"
    by (cases "input_py ''> '' ?w")
  note eff = input_py_effect [OF i]
  show ?thesis
  proof (cases r0)
    case (Inl e)
    then show ?thesis
      using assms i eff by (auto simp: get_text_input_def emit_def)
  next
    case (Inr line)
    then show ?thesis
      using assms i eff(1) eff(3) [OF Inr]
      by (auto simp: get_text_input_def emit_def Let_def split: if_splits)
  qed
qed

lemma turn_effect:
  assumes "turn sys conv m image_files w = (r, w1)"
  shows "set (stdin w1) \<subseteq> set (stdin w) \<and>
         (r = Inr Break \<longrightarrow>
            last (written w1) = Print ''\<newline>Exiting...'' \<and>
            (\<exists>s. Line s \<in> set (stdin w) \<and> lower (strip s) \<in> {''quit'', ''exit'', ''q''})) \<and>
         (r = Inl KeyboardInterrupt \<longrightarrow>
            CtrlC \<in> set (stdin w) \<or>
            (\<exists>p. stat_size sys p = Inl KeyboardInterrupt) \<or>
            (\<exists>p. generate_content sys conv m p = Inl KeyboardInterrupt))"
proof -
  obtain rd wd where d: "display_images (stat_size sys) (fmt_kb sys) image_files w = (rd, wd)"
    by (cases "display_images (stat_size sys) (fmt_kb sys) image_files w")
  note de = display_images_effect [OF d]
  show ?thesis
  proof (cases rd)
    case (Inl e)
    then show ?thesis
      using assms d de by (auto simp: turn_def)
  next
    case u: (Inr u)
    obtain rs ws where sel: "select_images image_files wd = (rs, ws)"
      by (cases "select_images image_files wd")
    note se = select_images_effect [OF sel]
    show ?thesis
    proof (cases rs)
      case (Inl e)
      then show ?thesis
        using assms d u sel se de by (auto simp: turn_def)
    next
      case sl: (Inr selected_images)
      show ?thesis
      proof (cases "selected_images = []")
        case True
        then show ?thesis
          using assms d u sel sl se de by (auto simp: turn_def)
      next
        case False
        let ?w2 = "emit (Print (''\<newline>Selected '' @ str_nat (length selected_images) @
                                       '' image(s):'')
                                # map (\<lambda>img. Print (''  - '' @ name img)) selected_images) ws"
        obtain rt wt where t: "get_text_input ?w2 = (rt, wt)"
          by (cases "get_text_input ?w2")
        note te = get_text_input_effect [OF t]
        have sub: "set (stdin ?w2) \<subseteq> set (stdin w)"
          using se de by (simp add: emit_def)
        have step: "turn sys conv m image_files w =
                      (case (rt, wt) of
                    (Inl e, w3) \<Rightarrow> (Inl e, w3)
                  | (Inr None, w3) \<Rightarrow> (Inr Break, emit [Print ''\<newline>Exiting...''] w3)
                  | (Inr (Some text), w3) \<Rightarrow>
                      if text = [] then (Inr Continue, w3)
                      else
                        (let prompt = map Image selected_images @ [Text text];
                             w4 = (emit [Print ''\<newline>[Processing...]''] w3)
                                    \<lparr>prompts := prompts w3 @ [prompt]\<rparr>
                         in case generate_content sys conv m prompt of
                              Inl e \<Rightarrow> (Inl e, w4)
                            | Inr response \<Rightarrow>
                                (Inr Continue,
                                 emit [Print ''\<newline>=== Response ==='', Print response,
                                       Print (rule60 @ ''\<newline>'')] w4)))"
          using d u sel sl False t by (simp add: turn_def)
        show ?thesis
        proof (cases rt)
          case (Inl e)
          then show ?thesis
            using assms step te sub by auto
        next
          case rtv: (Inr text_opt)
          show ?thesis
          proof (cases text_opt)
            case None
            then show ?thesis
              using assms step rtv te sub by (auto simp: emit_def)
          next
            case (Some question)
            then show ?thesis
              using assms step rtv te sub
              by (cases "generate_content sys conv m (map Image selected_images @ [Text question])")
                 (auto simp: emit_def Let_def split: if_splits)
          qed
        qed
      qed
    qed
  qed
qed

lemma main_loop_ends:
  assumes "main_loop sys conv m image_files fuel w = Some w'"
  shows "ended_by_quit w w' \<or> ended_by_interrupt sys conv m w w'"
  using assms
proof (induction fuel arbitrary: w)
  case 0
  then show ?case by simp
next
  case (Suc fuel)
  obtain r w1 where t: "turn sys conv m image_files w = (r, w1)"
    by (cases "turn sys conv m image_files w")
  note te = turn_effect [OF t]
  have mono: "ended_by_quit w2 w' \<or> ended_by_interrupt sys conv m w2 w' \<Longrightarrow>
              set (stdin w2) \<subseteq> set (stdin w) \<Longrightarrow>
              ended_by_quit w w' \<or> ended_by_interrupt sys conv m w w'" for w2
    unfolding ended_by_quit_def ended_by_interrupt_def by blast
  show ?case
  proof (cases r)
    case (Inl e)
    show ?thesis
    proof (cases "e = KeyboardInterrupt")
      case True
      then show ?thesis
        using Suc.prems t Inl te
        by (auto simp: ended_by_interrupt_def emit_def)
    next
      case False
      let ?w2 = "emit [LogError (''Error during inference: '' @ str_exn e),
                       Print (''\<newline>Error: '' @ str_exn e)] w1"
      have "main_loop sys conv m image_files fuel ?w2 = Some w'"
        using Suc.prems t Inl False by (cases e) simp_all
      from Suc.IH [OF this] show ?thesis
        using te by (intro mono [of ?w2]) (auto simp: emit_def)
    qed
  next
    case (Inr c)
    show ?thesis
    proof (cases c)
      case Continue
      then have "main_loop sys conv m image_files fuel w1 = Some w'"
        using Suc.prems t Inr by simp
      from Suc.IH [OF this] show ?thesis
        using te by (intro mono [of w1]) auto
    next
      case Break
      then show ?thesis
        using Suc.prems t Inr te by (auto simp: ended_by_quit_def)
    qed
  qed
qed

lemma main_enters_loop:
  assumes "(case lora_path a of
              None \<Rightarrow> load sys (model_path a) None
            | Some l \<Rightarrow> load sys l (Some (model_path a))) = Inr m0"
    and "configure_ps3_and_context_length (environ sys) m0 = (outs, Done m)"
    and "conv_templates sys (conv_mode a) = Some conv"
    and "find_images (files sys) (images_dir a) = (logs, image_files)"
    and "image_files \<noteq> []"
  shows "\<exists>w2. stdin w2 = stdin w \<and> prompts w2 = prompts w \<and>
              main sys a fuel w =
                map_option (Pair (Exit 0)) (main_loop sys conv m image_files fuel w2)"
proof -
  let ?w2 = "emit [LogInfo (''Found '' @ str_nat (length image_files) @
                                                          '' image(s) in '' @ images_dir a),
                                                 Print ''\<newline>Interactive mode started. Type 'quit' to exit.\<newline>'']
              (emit (LogInfo (''Using conversation mode: '' @ conv_mode a) # logs)
                (emit (LogInfo ''Model loaded successfully'' # outs)
                  (emit [Print (''\<newline>'' @ rule60), Print ''  VILA Local Image Analyzer'',
                     Print (rule60 @ ''\<newline>''),
                     LogInfo (''Loading model from: '' @ model_path a)] w)))"
  have "main sys a fuel w =
          map_option (Pair (Exit 0)) (main_loop sys conv m image_files fuel ?w2)"
    unfolding main_def Let_def assms(1)
    by (simp only: assms(2-5) sum.case prod.case outcome.case option.case if_False
          map_option_case)
  moreover have "stdin ?w2 = stdin w" "prompts ?w2 = prompts w"
    by (simp_all add: emit_def)
  ultimately show ?thesis
    by blast
qed

lemma main_load_fails:
  assumes "(case lora_path a of
              None \<Rightarrow> load sys (model_path a) None
            | Some l \<Rightarrow> load sys l (Some (model_path a))) = Inl e"
  shows "\<exists>w1. main sys a fuel w = Some (Uncaught e, w1)"
  unfolding main_def Let_def assms(1)
  by (simp only: sum.case) blast

lemma main_configure_raises:
  assumes "(case lora_path a of
              None \<Rightarrow> load sys (model_path a) None
            | Some l \<Rightarrow> load sys l (Some (model_path a))) = Inr m0"
    and "configure_ps3_and_context_length (environ sys) m0 = (outs, Raised e m)"
  shows "\<exists>w1. main sys a fuel w = Some (Uncaught e, w1)"
  unfolding main_def Let_def assms(1)
  by (simp only: assms(2) sum.case prod.case outcome.case) blast

lemma main_unknown_conv_mode:
  assumes "(case lora_path a of
              None \<Rightarrow> load sys (model_path a) None
            | Some l \<Rightarrow> load sys l (Some (model_path a))) = Inr m0"
    and "configure_ps3_and_context_length (environ sys) m0 = (outs, Done m)"
    and "conv_templates sys (conv_mode a) = None"
  shows "\<exists>w1. main sys a fuel w = Some (Uncaught (KeyError (conv_mode a)), w1)"
  unfolding main_def Let_def assms(1)
  by (simp only: assms(2-3) sum.case prod.case outcome.case option.case) blast

lemma main_no_images:
  assumes "(case lora_path a of
              None \<Rightarrow> load sys (model_path a) None
            | Some l \<Rightarrow> load sys l (Some (model_path a))) = Inr m0"
    and "configure_ps3_and_context_length (environ sys) m0 = (outs, Done m)"
    and "conv_templates sys (conv_mode a) = Some conv"
    and "find_images (files sys) (images_dir a) = (logs, [])"
  shows "\<exists>w1. main sys a fuel w = Some (Exit 1, w1) \<and> stdin w1 = stdin w \<and>
              prompts w1 = prompts w \<and>
              last (written w1) =
                LogInfo ''Please add some images (.jpg, .jpeg, .png) to the images/ folder''"
proof -
  let ?w1 = "emit [LogError (''No images found in '' @ images_dir a),
                                             LogInfo ''Please add some images (.jpg, .jpeg, .png) to the images/ folder'']
               (emit (LogInfo (''Using conversation mode: '' @ conv_mode a) # logs)
                 (emit (LogInfo ''Model loaded successfully'' # outs)
                   (emit [Print (''\<newline>'' @ rule60), Print ''  VILA Local Image Analyzer'',
                     Print (rule60 @ ''\<newline>''),
                     LogInfo (''Loading model from: '' @ model_path a)] w)))"
  have "main sys a fuel w = Some (Exit 1, ?w1)"
    unfolding main_def Let_def assms(1)
    by (simp only: assms(2-4) sum.case prod.case outcome.case option.case if_True refl)
  moreover have "stdin ?w1 = stdin w" "prompts ?w1 = prompts w"
    "last (written ?w1) =
       LogInfo ''Please add some images (.jpg, .jpeg, .png) to the images/ folder''"
    by (simp_all add: emit_def)
  ultimately show ?thesis
    by blast
qed

lemma main_exit_cases:
  assumes "main sys a fuel w = Some (Exit n, w')"
  shows "(n = 1 \<and> snd (find_images (files sys) (images_dir a)) = []) \<or>
         (n = 0 \<and> snd (find_images (files sys) (images_dir a)) \<noteq> [] \<and>
          (\<exists>m0 outs m conv w2.
             (case lora_path a of
                None \<Rightarrow> load sys (model_path a) None
              | Some l \<Rightarrow> load sys l (Some (model_path a))) = Inr m0 \<and>
             configure_ps3_and_context_length (environ sys) m0 = (outs, Done m) \<and>
             conv_templates sys (conv_mode a) = Some conv \<and>
             stdin w2 = stdin w \<and>
             main_loop sys conv m (snd (find_images (files sys) (images_dir a))) fuel w2 =
               Some w'))"
proof -
  let ?load = "(case lora_path a of
              None \<Rightarrow> load sys (model_path a) None
            | Some l \<Rightarrow> load sys l (Some (model_path a)))"
  obtain m0 where ld: "?load = Inr m0"
    using assms main_load_fails [where a = a and sys = sys and fuel = fuel and w = w]
    by (cases ?load) auto
  obtain outs res where c: "configure_ps3_and_context_length (environ sys) m0 = (outs, res)"
    by (cases "configure_ps3_and_context_length (environ sys) m0")
  obtain m where res: "res = Done m"
    using assms main_configure_raises [OF ld, where fuel = fuel and w = w] c
    by (cases res) auto
  note c = c [unfolded res]
  obtain conv where cv: "conv_templates sys (conv_mode a) = Some conv"
    using assms main_unknown_conv_mode [OF ld c, where fuel = fuel and w = w]
    by (cases "conv_templates sys (conv_mode a)") auto
  obtain logs image_files where f: "find_images (files sys) (images_dir a) = (logs, image_files)"
    by (cases "find_images (files sys) (images_dir a)")
  show ?thesis
  proof (cases "image_files = []")
    case True
    then show ?thesis
      using assms main_no_images [OF ld c cv, where fuel = fuel and w = w] f by auto
  next
    case False
    obtain w2 where w2: "stdin w2 = stdin w"
      and run: "main sys a fuel w =
                  map_option (Pair (Exit 0)) (main_loop sys conv m image_files fuel w2)"
      using main_enters_loop [OF ld c cv f False] by blast
    from run assms have "n = 0 \<and> main_loop sys conv m image_files fuel w2 = Some w'"
      by (cases "main_loop sys conv m image_files fuel w2") simp_all
    then show ?thesis
      using False f ld c cv w2 by auto
  qed
qed




lemmas eval_defs = example_system_def example_args_def example_world_def example_model_def
  turn_def display_images_def get_text_input_def input_py_def emit_def select_body_def
  select_images.simps strip_def isspace_def lower_def lower_char_def py_int_def isspace_int_def
  parse_unsigned_def isdigit_def digit_val_def contains_def str_nat.simps rule60_def Let_def

lemmas startup_defs = main_def find_images_def glob_def supported_extensions_def upper_def
  upper_char_def suffix_to_prefix configure_ps3_and_context_length_def and_then_def
  set_num_look_close_def set_num_token_look_close_def set_select_num_each_scale_def
  set_look_close_mode_def set_smooth_selection_prob_def adjust_context_length_def


section \<open>Exit status\<close>

text \<open>
  Claim C8. When the images directory does not exist, \<open>find_images\<close> logs the error and
  returns the empty list. Whenever the startup reaches \<open>find_images\<close> and it returns the
  empty list, \<open>main\<close> exits with status 1 without reading input. Every run of \<open>main\<close> that
  exits with a status exits with 1 and no image found, or with 0 after images were found and
  one of the two farewells was written last.
\<close>

theorem no_images_exit_status:
  "(files sys d = None \<longrightarrow>
      find_images (files sys) d = ([LogError (''Images directory not found: '' @ d)], [])) \<and>
   (\<forall>m0 outs m conv.
      (case lora_path a of
         None \<Rightarrow> load sys (model_path a) None
       | Some l \<Rightarrow> load sys l (Some (model_path a))) = Inr m0 \<and>
      configure_ps3_and_context_length (environ sys) m0 = (outs, Done m) \<and>
      conv_templates sys (conv_mode a) = Some conv \<and>
      snd (find_images (files sys) (images_dir a)) = [] \<longrightarrow>
      (\<exists>w'. main sys a fuel w = Some (Exit 1, w') \<and> stdin w' = stdin w \<and>
            prompts w' = prompts w)) \<and>
   (\<forall>n w'. main sys a fuel w = Some (Exit n, w') \<longrightarrow>
      (n = 1 \<and> snd (find_images (files sys) (images_dir a)) = []) \<or>
      (n = 0 \<and> snd (find_images (files sys) (images_dir a)) \<noteq> [] \<and>
       (last (written w') = Print ''\<newline>Exiting...'' \<or>
        last (written w') = Print ''\<newline>\<newline>Interrupted. Exiting...'')))"
proof (intro conjI allI impI)
  assume "files sys d = None"
  then show "find_images (files sys) d = ([LogError (''Images directory not found: '' @ d)], [])"
    by (simp add: find_images_def)
next
  fix m0 outs m conv
  assume h: "(case lora_path a of
         None \<Rightarrow> load sys (model_path a) None
       | Some l \<Rightarrow> load sys l (Some (model_path a))) = Inr m0 \<and>
      configure_ps3_and_context_length (environ sys) m0 = (outs, Done m) \<and>
      conv_templates sys (conv_mode a) = Some conv \<and>
      snd (find_images (files sys) (images_dir a)) = []"
  then have s1: "(case lora_path a of
         None \<Rightarrow> load sys (model_path a) None
       | Some l \<Rightarrow> load sys l (Some (model_path a))) = Inr m0"
    and s2: "configure_ps3_and_context_length (environ sys) m0 = (outs, Done m)"
    and s3: "conv_templates sys (conv_mode a) = Some conv"
    by simp_all
  obtain logs where s4: "find_images (files sys) (images_dir a) = (logs, [])"
    using h by (cases "find_images (files sys) (images_dir a)") simp
  from main_no_images [OF s1 s2 s3 s4, where fuel = fuel and w = w]
  show "\<exists>w'. main sys a fuel w = Some (Exit 1, w') \<and> stdin w' = stdin w \<and>
             prompts w' = prompts w"
    by blast
next
  fix n w'
  assume "main sys a fuel w = Some (Exit n, w')"
  from main_exit_cases [OF this]
  show "(n = 1 \<and> snd (find_images (files sys) (images_dir a)) = []) \<or>
      (n = 0 \<and> snd (find_images (files sys) (images_dir a)) \<noteq> [] \<and>
       (last (written w') = Print ''\<newline>Exiting...'' \<or>
        last (written w') = Print ''\<newline>\<newline>Interrupted. Exiting...''))"
  proof
    assume "n = 1 \<and> snd (find_images (files sys) (images_dir a)) = []"
    then show ?thesis by simp
  next
    assume "n = 0 \<and> snd (find_images (files sys) (images_dir a)) \<noteq> [] \<and>
          (\<exists>m0 outs m conv w2.
             (case lora_path a of
                None \<Rightarrow> load sys (model_path a) None
              | Some l \<Rightarrow> load sys l (Some (model_path a))) = Inr m0 \<and>
             configure_ps3_and_context_length (environ sys) m0 = (outs, Done m) \<and>
             conv_templates sys (conv_mode a) = Some conv \<and>
             stdin w2 = stdin w \<and>
             main_loop sys conv m (snd (find_images (files sys) (images_dir a))) fuel w2 =
               Some w')"
    then obtain conv m w2 where n: "n = 0"
      and ne: "snd (find_images (files sys) (images_dir a)) \<noteq> []"
      and l: "main_loop sys conv m (snd (find_images (files sys) (images_dir a))) fuel w2 =
               Some w'"
      by blast
    from main_loop_ends [OF l]
    have "last (written w') = Print ''\<newline>Exiting...'' \<or>
          last (written w') = Print ''\<newline>\<newline>Interrupted. Exiting...''"
      unfolding ended_by_quit_def ended_by_interrupt_def by blast
    with n ne show ?thesis by simp
  qed
qed

theorem no_images_exit_status_witness:
  "files (example_system Map.empty (\<lambda>p. Inr ''a cat'')) ''missing'' = None \<and>
   find_images (files (example_system Map.empty (\<lambda>p. Inr ''a cat''))) ''missing'' =
     ([LogError ''Images directory not found: missing''], []) \<and>
   (\<exists>w'. main (example_system Map.empty (\<lambda>p. Inr ''a cat''))
            (example_args\<lparr>images_dir := ''missing''\<rparr>) 5 (example_world [Line ''all'']) =
          Some (Exit 1, w') \<and> stdin w' = [Line ''all''] \<and> prompts w' = [])"
proof -
  let ?sys = "example_system Map.empty (\<lambda>p. Inr ''a cat'')"
  let ?a = "example_args\<lparr>images_dir := ''missing''\<rparr>"
  let ?w = "example_world [Line ''all'']"
  note status = no_images_exit_status [of ?sys "''missing''" ?a 5 ?w]
  have h1: "files ?sys ''missing'' = None"
    by (simp add: example_system_def)
  have h2: "(case lora_path ?a of
         None \<Rightarrow> load ?sys (model_path ?a) None
       | Some l \<Rightarrow> load ?sys l (Some (model_path ?a))) = Inr example_model \<and>
      configure_ps3_and_context_length (environ ?sys) example_model = ([], Done example_model) \<and>
      conv_templates ?sys (conv_mode ?a) = Some () \<and>
      snd (find_images (files ?sys) (images_dir ?a)) = []"
    by (simp add: eval_defs startup_defs)
  have f: "find_images (files ?sys) ''missing'' =
             ([LogError ''Images directory not found: missing''], [])"
    using status h1 by simp
  have "\<exists>w'. main ?sys ?a 5 ?w = Some (Exit 1, w') \<and> stdin w' = stdin ?w \<and>
               prompts w' = prompts ?w"
    using status h2 by blast
  then have m: "\<exists>w'. main ?sys ?a 5 ?w = Some (Exit 1, w') \<and> stdin w' = [Line ''all''] \<and>
               prompts w' = []"
    by (simp add: example_world_def)
  from h1 f m show ?thesis
    by blast
qed

section \<open>Properties of the remote client\<close>

lemma getitem_key_JObj:
  "map_of kvs k = Some x \<Longrightarrow> getitem_key (JObj kvs) k = Inr x"
  by (simp add: getitem_key_def)

text \<open>
  Claim C10. Whatever the server does, the client sends one POST, to the chat-completions
  URL, with the headers \<^verbatim>\<open>Content-Type: application/json\<close> and
  \<^verbatim>\<open>Authorization: Bearer fake-key\<close>; the body's messages are one message of role "user"
  whose content is a text part followed by an image_url part. When the response is an object
  whose first choice has a message with a content, the client prints exactly that content,
  whatever the other choices are.
\<close>

theorem client_request_and_answer:
  "sent (client server) =
     [\<lparr>url = ''http://localhost:8000/chat/completions'',
        headers = [(''Content-Type'', ''application/json''),
                   (''Authorization'', ''Bearer fake-key'')],
        body = client_data\<rparr>] \<and>
   (\<exists>text_part url_part.
      getitem_key client_data ''messages'' =
        Inr (JArr [JObj [(''role'', JStr ''user''),
                         (''content'',
                          JArr [JObj [(''type'', JStr ''text''), (''text'', JStr text_part)],
                                JObj [(''type'', JStr ''image_url''),
                                      (''image_url'', JObj [(''url'', JStr url_part)])]])]])) \<and>
   (\<forall>fields choice others message content.
      server \<lparr>url = client_url, headers = client_headers, body = client_data\<rparr> =
        Inr (JObj fields) \<and>
      map_of fields ''choices'' = Some (JArr (JObj choice # others)) \<and>
      map_of choice ''message'' = Some (JObj message) \<and>
      map_of message ''content'' = Some content \<longrightarrow>
      printed (client server) = [content] \<and> failed (client server) = None)"
proof (intro conjI allI impI)
  show "sent (client server) =
     [\<lparr>url = ''http://localhost:8000/chat/completions'',
        headers = [(''Content-Type'', ''application/json''),
                   (''Authorization'', ''Bearer fake-key'')],
        body = client_data\<rparr>]"
    by (simp add: client_def Let_def client_url_def client_headers_def
          split: sum.splits)
next
  show "\<exists>text_part url_part.
      getitem_key client_data ''messages'' =
        Inr (JArr [JObj [(''role'', JStr ''user''),
                         (''content'',
                          JArr [JObj [(''type'', JStr ''text''), (''text'', JStr text_part)],
                                JObj [(''type'', JStr ''image_url''),
                                      (''image_url'', JObj [(''url'', JStr url_part)])]])]])"
    by (simp add: client_data_def getitem_key_def)
next
  fix fields choice others message content
  assume h: "server \<lparr>url = client_url, headers = client_headers, body = client_data\<rparr> =
        Inr (JObj fields) \<and>
      map_of fields ''choices'' = Some (JArr (JObj choice # others)) \<and>
      map_of choice ''message'' = Some (JObj message) \<and>
      map_of message ''content'' = Some content"
  then have "client server = \<lparr>sent = [\<lparr>url = client_url, headers = client_headers, body = client_data\<rparr>],
                               printed = [content], failed = None\<rparr>"
    unfolding client_def Let_def
    by (simp add: getitem_key_def getitem_0_def)
  then show "printed (client server) = [content]" and "failed (client server) = None"
    by simp_all
qed

theorem client_request_and_answer_witness:
  "map_of [(''choices'',
            JArr [JObj [(''message'', JObj [(''content'', JStr ''a logo'')])],
                  JObj [(''message'', JObj [(''content'', JStr ''something else'')])]])]
     ''choices'' =
     Some (JArr (JObj [(''message'', JObj [(''content'', JStr ''a logo'')])]
                 # [JObj [(''message'', JObj [(''content'', JStr ''something else'')])]])) \<and>
   printed (client (\<lambda>request. Inr (JObj [(''choices'',
            JArr [JObj [(''message'', JObj [(''content'', JStr ''a logo'')])],
                  JObj [(''message'', JObj [(''content'', JStr ''something else'')])]])]))) =
     [JStr ''a logo''] \<and>
   failed (client (\<lambda>request. Inr (JObj [(''choices'',
            JArr [JObj [(''message'', JObj [(''content'', JStr ''a logo'')])],
                  JObj [(''message'', JObj [(''content'', JStr ''something else'')])]])]))) =
     None \<and>
   length (sent (client (\<lambda>request. Inr (JObj [(''choices'',
            JArr [JObj [(''message'', JObj [(''content'', JStr ''a logo'')])],
                  JObj [(''message'', JObj [(''content'', JStr ''something else'')])]])])))) = 1"
proof -
  let ?fields = "[(''choices'',
            JArr [JObj [(''message'', JObj [(''content'', JStr ''a logo'')])],
                  JObj [(''message'', JObj [(''content'', JStr ''something else'')])]])]"
  let ?server = "\<lambda>request :: http_post. (Inr (JObj ?fields) :: exn + json)"
  note answer = client_request_and_answer [of ?server]
  have h: "?server \<lparr>url = client_url, headers = client_headers, body = client_data\<rparr> =
             Inr (JObj ?fields) \<and>
           map_of ?fields ''choices'' =
             Some (JArr (JObj [(''message'', JObj [(''content'', JStr ''a logo'')])]
                   # [JObj [(''message'', JObj [(''content'', JStr ''something else'')])]])) \<and>
           map_of [(''message'', JObj [(''content'', JStr ''a logo'')])] ''message'' =
             Some (JObj [(''content'', JStr ''a logo'')]) \<and>
           map_of [(''content'', JStr ''a logo'')] ''content'' = Some (JStr ''a logo'')"
    by simp
  have p: "printed (client ?server) = [JStr ''a logo''] \<and> failed (client ?server) = None"
    using answer h by blast
  have s: "length (sent (client ?server)) = 1"
    using answer by simp
  from h p s show ?thesis
    by blast
qed

lemma and_then_DoneI:
  "r = (o1, Done m1) \<Longrightarrow> f m1 = (o2, Done m2) \<Longrightarrow> and_then r f = (o1 @ o2, Done m2)"
  by (simp add: and_then_def)

lemma set_num_look_close_completes:
  "(case env ''NUM_LOOK_CLOSE'' of None \<Rightarrow> True | Some v \<Rightarrow> py_int v \<noteq> None) \<Longrightarrow>
   \<exists>outs m'. set_num_look_close env m = (outs, Done m')"
  by (auto simp: set_num_look_close_def split: option.splits)

lemma set_num_token_look_close_completes:
  "(case env ''NUM_TOKEN_LOOK_CLOSE'' of None \<Rightarrow> True | Some v \<Rightarrow> py_int v \<noteq> None) \<Longrightarrow>
   \<exists>outs m'. set_num_token_look_close env m = (outs, Done m')"
  by (auto simp: set_num_token_look_close_def split: option.splits)

lemma set_select_num_each_scale_completes:
  "(case env ''SELECT_NUM_EACH_SCALE'' of None \<Rightarrow> True
    | Some v \<Rightarrow> \<not> isl (ints_of (split_on CHR ''+'' v))) \<Longrightarrow>
   \<exists>outs m'. set_select_num_each_scale env m = (outs, Done m')"
  by (auto simp: set_select_num_each_scale_def split: option.splits sum.splits)

lemma set_look_close_mode_completes:
  "\<exists>outs m'. set_look_close_mode env m = (outs, Done m')"
  by (auto simp: set_look_close_mode_def split: option.splits)

lemma set_smooth_selection_prob_completes:
  "(case env ''SMOOTH_SELECTION_PROB'' of None \<Rightarrow> True
    | Some v \<Rightarrow> lower v = ''true'' \<or> lower v = ''false'') \<Longrightarrow>
   \<exists>outs m'. set_smooth_selection_prob env m = (outs, Done m')"
  by (auto simp: set_smooth_selection_prob_def split: option.splits)

lemma adjust_context_length_completes:
  "(case env ''NUM_LOOK_CLOSE'' of None \<Rightarrow> True | Some v \<Rightarrow> py_int v \<noteq> None) \<Longrightarrow>
   (case env ''NUM_TOKEN_LOOK_CLOSE'' of None \<Rightarrow> True | Some v \<Rightarrow> py_int v \<noteq> None) \<Longrightarrow>
   \<exists>outs m'. adjust_context_length env m = (outs, Done m')"
  by (auto simp: adjust_context_length_def Let_def split: option.splits)

lemma configure_completes:
  assumes "accepted env"
  shows "\<exists>outs m'. configure_ps3_and_context_length env m = (outs, Done m')"
proof -
  from assms have a1: "(case env ''NUM_LOOK_CLOSE'' of None \<Rightarrow> True | Some v \<Rightarrow> py_int v \<noteq> None)"
    and a2: "(case env ''NUM_TOKEN_LOOK_CLOSE'' of None \<Rightarrow> True | Some v \<Rightarrow> py_int v \<noteq> None)"
    and a3: "(case env ''SELECT_NUM_EACH_SCALE'' of None \<Rightarrow> True
              | Some v \<Rightarrow> \<not> isl (ints_of (split_on CHR ''+'' v)))"
    and a5: "(case env ''SMOOTH_SELECTION_PROB'' of None \<Rightarrow> True
              | Some v \<Rightarrow> lower v = ''true'' \<or> lower v = ''false'')"
    by (simp_all add: accepted_def)
  obtain o1 m1 where s1: "set_num_look_close env m = (o1, Done m1)"
    using set_num_look_close_completes [where env = env, OF a1] by blast
  obtain o2 m2 where s2: "set_num_token_look_close env m1 = (o2, Done m2)"
    using set_num_token_look_close_completes [where env = env, OF a2] by blast
  obtain o3 m3 where s3: "set_select_num_each_scale env m2 = (o3, Done m3)"
    using set_select_num_each_scale_completes [where env = env, OF a3] by blast
  obtain o4 m4 where s4: "set_look_close_mode env m3 = (o4, Done m4)"
    using set_look_close_mode_completes by blast
  obtain o5 m5 where s5: "set_smooth_selection_prob env m4 = (o5, Done m5)"
    using set_smooth_selection_prob_completes [where env = env, OF a5] by blast
  obtain o6 m6 where s6: "adjust_context_length env m5 = (o6, Done m6)"
    using adjust_context_length_completes [where env = env, OF a1 a2] by blast
  have "configure_ps3_and_context_length env m = (((((o1 @ o2) @ o3) @ o4) @ o5) @ o6, Done m6)"
    by (simp add: configure_ps3_and_context_length_def and_then_def s1 s2 s3 s4 s5 s6)
  then show ?thesis
    by blast
qed

lemma configure_completes_iff:
  "(\<exists>outs m'. configure_ps3_and_context_length env m = (outs, Done m')) \<longleftrightarrow> accepted env"
  using configure_completes configure_parses unfolding accepted_def by blast

section \<open>Claims about the configuration\<close>

lemmas configure_defs = configure_ps3_and_context_length_def and_then_def
  set_num_look_close_def set_num_token_look_close_def set_select_num_each_scale_def
  set_look_close_mode_def set_smooth_selection_prob_def adjust_context_length_def

lemmas literal_defs = strip_def isspace_def lower_def lower_char_def py_int_def
  isspace_int_def parse_unsigned_def isdigit_def digit_val_def

text \<open>
  Claim C1. When the values of the variables present are accepted, the configuration
  completes, and the effective context length is the maximum of the tokenizer's limit before
  the run and the derived lower bounds, \<open>n * 2560 div 4 + 1024\<close> for \<^verbatim>\<open>NUM_LOOK_CLOSE\<close> and
  \<open>k div 4 + 1024\<close> for \<^verbatim>\<open>NUM_TOKEN_LOOK_CLOSE\<close>, each only when its variable is present;
  that one value stands in all five places. With \<^verbatim>\<open>NUM_LOOK_CLOSE\<close> alone and the
  tokenizer's limit below its bound, the value is that bound.
\<close>

theorem context_length_adjusted:
  assumes "accepted env"
  shows "\<exists>outs m'.
           configure_ps3_and_context_length env m = (outs, Done m') \<and>
           tokenizer_model_max_length m' =
             Max (set (tokenizer_model_max_length m # derived_bounds env)) \<and>
           config_model_max_length m' = tokenizer_model_max_length m' \<and>
           config_tokenizer_model_max_length m' = tokenizer_model_max_length m' \<and>
           llm_config_model_max_length m' = tokenizer_model_max_length m' \<and>
           llm_config_tokenizer_model_max_length m' = tokenizer_model_max_length m' \<and>
           (\<forall>v n. env ''NUM_LOOK_CLOSE'' = Some v \<and> py_int v = Some n \<and>
                  env ''NUM_TOKEN_LOOK_CLOSE'' = None \<and>
                  tokenizer_model_max_length m < n * 2560 div 4 + 1024 \<longrightarrow>
                  tokenizer_model_max_length m' = n * 2560 div 4 + 1024) \<and>
           (\<forall>v n v' k. env ''NUM_LOOK_CLOSE'' = Some v \<and> py_int v = Some n \<and>
                  env ''NUM_TOKEN_LOOK_CLOSE'' = Some v' \<and> py_int v' = Some k \<longrightarrow>
                  tokenizer_model_max_length m' =
                    max (tokenizer_model_max_length m)
                        (max (n * 2560 div 4 + 1024) (k div 4 + 1024)))"
proof -
  obtain outs m' where run: "configure_ps3_and_context_length env m = (outs, Done m')"
    using configure_completes [OF assms] by blast
  note d = configure_Done [OF run]
  let ?c = "Max (set (tokenizer_model_max_length m # derived_bounds env))"
  have t: "tokenizer_model_max_length m' = ?c"
    by (subst d) simp
  have f: "config_model_max_length m' = ?c"
    "config_tokenizer_model_max_length m' = ?c"
    "llm_config_model_max_length m' = ?c"
    "llm_config_tokenizer_model_max_length m' = ?c"
    by (subst d, simp)+
  have one: "?c = n * 2560 div 4 + 1024"
    if "env ''NUM_LOOK_CLOSE'' = Some v" "py_int v = Some n" "env ''NUM_TOKEN_LOOK_CLOSE'' = None"
       "tokenizer_model_max_length m < n * 2560 div 4 + 1024" for v n
    using that by (simp add: derived_bounds_def)
  have both: "?c = max (tokenizer_model_max_length m) (max (n * 2560 div 4 + 1024) (k div 4 + 1024))"
    if "env ''NUM_LOOK_CLOSE'' = Some v" "py_int v = Some n"
       "env ''NUM_TOKEN_LOOK_CLOSE'' = Some v'" "py_int v' = Some k" for v n v' k
    using that by (simp add: derived_bounds_def)
  have c1: "\<forall>v n. env ''NUM_LOOK_CLOSE'' = Some v \<and> py_int v = Some n \<and>
                  env ''NUM_TOKEN_LOOK_CLOSE'' = None \<and>
                  tokenizer_model_max_length m < n * 2560 div 4 + 1024 \<longrightarrow>
                  tokenizer_model_max_length m' = n * 2560 div 4 + 1024"
    using one t by auto
  have c2: "\<forall>v n v' k. env ''NUM_LOOK_CLOSE'' = Some v \<and> py_int v = Some n \<and>
                  env ''NUM_TOKEN_LOOK_CLOSE'' = Some v' \<and> py_int v' = Some k \<longrightarrow>
                  tokenizer_model_max_length m' =
                    max (tokenizer_model_max_length m)
                        (max (n * 2560 div 4 + 1024) (k div 4 + 1024))"
    using both t by auto
  from run t f c1 c2 show ?thesis
    by (intro exI [of _ outs] exI [of _ m'] conjI) simp_all
qed

theorem context_length_adjusted_witness:
  "accepted [''NUM_LOOK_CLOSE'' \<mapsto> ''100''] \<and>
   configure_ps3_and_context_length [''NUM_LOOK_CLOSE'' \<mapsto> ''100'']
     (example_model\<lparr>config_model_max_length := 0, llm_config_model_max_length := 7\<rparr>) =
   ([LogInfo ''Num look close: 100''],
    Done (example_model\<lparr>num_look_close := Some 100, config_model_max_length := 65024,
            config_tokenizer_model_max_length := 65024, llm_config_model_max_length := 65024,
            llm_config_tokenizer_model_max_length := 65024,
            tokenizer_model_max_length := 65024\<rparr>)) \<and>
   accepted [''NUM_LOOK_CLOSE'' \<mapsto> ''100'', ''NUM_TOKEN_LOOK_CLOSE'' \<mapsto> ''300000''] \<and>
   configure_ps3_and_context_length
     [''NUM_LOOK_CLOSE'' \<mapsto> ''100'', ''NUM_TOKEN_LOOK_CLOSE'' \<mapsto> ''300000''] example_model =
   ([LogInfo ''Num look close: 100'', LogInfo ''Num token look close: 300000''],
    Done (example_model\<lparr>num_look_close := Some 100, num_token_look_close := Some 300000,
            config_model_max_length := 76024,
            config_tokenizer_model_max_length := 76024, llm_config_model_max_length := 76024,
            llm_config_tokenizer_model_max_length := 76024,
            tokenizer_model_max_length := 76024\<rparr>))"
proof -
  let ?e1 = "[''NUM_LOOK_CLOSE'' \<mapsto> ''100'']"
  let ?e2 = "[''NUM_LOOK_CLOSE'' \<mapsto> ''100'', ''NUM_TOKEN_LOOK_CLOSE'' \<mapsto> ''300000'']"
  let ?m1 = "example_model\<lparr>config_model_max_length := 0, llm_config_model_max_length := 7\<rparr>"
  have p: "py_int ''100'' = Some 100" "py_int ''300000'' = Some 300000"
    by (simp_all add: literal_defs)
  have a1: "accepted ?e1" and a2: "accepted ?e2"
    by (simp_all add: accepted_def p)
  obtain o1 r1 where run1: "configure_ps3_and_context_length ?e1 ?m1 = (o1, Done r1)"
    and t1: "tokenizer_model_max_length r1 = Max (set (tokenizer_model_max_length ?m1 # derived_bounds ?e1))"
    and f1: "config_model_max_length r1 = tokenizer_model_max_length r1"
      "config_tokenizer_model_max_length r1 = tokenizer_model_max_length r1"
      "llm_config_model_max_length r1 = tokenizer_model_max_length r1"
      "llm_config_tokenizer_model_max_length r1 = tokenizer_model_max_length r1"
    using context_length_adjusted [OF a1, of ?m1] by blast
  obtain o2 r2 where run2: "configure_ps3_and_context_length ?e2 example_model = (o2, Done r2)"
    and t2: "tokenizer_model_max_length r2 =
               Max (set (tokenizer_model_max_length example_model # derived_bounds ?e2))"
    and f2: "config_model_max_length r2 = tokenizer_model_max_length r2"
      "config_tokenizer_model_max_length r2 = tokenizer_model_max_length r2"
      "llm_config_model_max_length r2 = tokenizer_model_max_length r2"
      "llm_config_tokenizer_model_max_length r2 = tokenizer_model_max_length r2"
    using context_length_adjusted [OF a2, of example_model] by blast
  have b1: "Max (set (tokenizer_model_max_length ?m1 # derived_bounds ?e1)) = 65024"
    and b2: "Max (set (tokenizer_model_max_length example_model # derived_bounds ?e2)) = 76024"
    by (simp_all add: derived_bounds_def p example_model_def)
  have e1: "configure_ps3_and_context_length ?e1 ?m1 =
   ([LogInfo ''Num look close: 100''],
    Done (example_model\<lparr>num_look_close := Some 100, config_model_max_length := 65024,
            config_tokenizer_model_max_length := 65024, llm_config_model_max_length := 65024,
            llm_config_tokenizer_model_max_length := 65024,
            tokenizer_model_max_length := 65024\<rparr>))"
    using run1 t1 f1 b1 by (simp add: configure_defs p example_model_def)
  have e2: "configure_ps3_and_context_length ?e2 example_model =
   ([LogInfo ''Num look close: 100'', LogInfo ''Num token look close: 300000''],
    Done (example_model\<lparr>num_look_close := Some 100, num_token_look_close := Some 300000,
            config_model_max_length := 76024,
            config_tokenizer_model_max_length := 76024, llm_config_model_max_length := 76024,
            llm_config_tokenizer_model_max_length := 76024,
            tokenizer_model_max_length := 76024\<rparr>))"
    using run2 t2 f2 b2 by (simp add: configure_defs p example_model_def)
  from a1 e1 a2 e2 show ?thesis
    by blast
qed

text \<open>
  Claim C9. Whatever the run does, the attributes whose variable is absent keep their value,
  and so does every attribute of the model outside the five settings and the five lengths.
  When the values of the variables present are accepted, the run completes and each attribute
  whose variable is present holds the value converted from it. A run completes only then.
\<close>

theorem configure_frame:
  "(\<forall>outs r. configure_ps3_and_context_length env m = (outs, r) \<longrightarrow>
      model.more (model_of r) = model.more m \<and>
      (env ''NUM_LOOK_CLOSE'' = None \<longrightarrow> num_look_close (model_of r) = num_look_close m) \<and>
      (env ''NUM_TOKEN_LOOK_CLOSE'' = None \<longrightarrow>
         num_token_look_close (model_of r) = num_token_look_close m) \<and>
      (env ''SELECT_NUM_EACH_SCALE'' = None \<longrightarrow>
         max_select_num_each_scale (model_of r) = max_select_num_each_scale m) \<and>
      (env ''LOOK_CLOSE_MODE'' = None \<longrightarrow> look_close_mode (model_of r) = look_close_mode m) \<and>
      (env ''SMOOTH_SELECTION_PROB'' = None \<longrightarrow>
         smooth_selection_prob (model_of r) = smooth_selection_prob m)) \<and>
   (accepted env \<longrightarrow>
      (\<exists>outs m'.
         configure_ps3_and_context_length env m = (outs, Done m') \<and>
         model.more m' = model.more m \<and>
         num_look_close m' =
           (case env ''NUM_LOOK_CLOSE'' of None \<Rightarrow> num_look_close m | Some v \<Rightarrow> py_int v) \<and>
         num_token_look_close m' =
           (case env ''NUM_TOKEN_LOOK_CLOSE'' of None \<Rightarrow> num_token_look_close m
            | Some v \<Rightarrow> py_int v) \<and>
         max_select_num_each_scale m' =
           (case env ''SELECT_NUM_EACH_SCALE'' of None \<Rightarrow> max_select_num_each_scale m
            | Some v \<Rightarrow> (case ints_of (split_on CHR ''+'' v) of Inl x \<Rightarrow> None
                         | Inr ns \<Rightarrow> Some ns)) \<and>
         look_close_mode m' =
           (case env ''LOOK_CLOSE_MODE'' of None \<Rightarrow> look_close_mode m | Some v \<Rightarrow> Some v) \<and>
         smooth_selection_prob m' =
           (case env ''SMOOTH_SELECTION_PROB'' of None \<Rightarrow> smooth_selection_prob m
            | Some v \<Rightarrow> Some (lower v = ''true'')))) \<and>
   (\<forall>outs m'. configure_ps3_and_context_length env m = (outs, Done m') \<longrightarrow> accepted env)"
proof (intro conjI allI impI)
  fix outs r
  assume run: "configure_ps3_and_context_length env m = (outs, r)"
  have frame: "untouched env m (model_of r)"
    using untouched_configure [of env m] run by simp
  then show "model.more (model_of r) = model.more m"
    and "env ''NUM_LOOK_CLOSE'' = None \<Longrightarrow> num_look_close (model_of r) = num_look_close m"
    and "env ''NUM_TOKEN_LOOK_CLOSE'' = None \<Longrightarrow>
         num_token_look_close (model_of r) = num_token_look_close m"
    and "env ''SELECT_NUM_EACH_SCALE'' = None \<Longrightarrow>
         max_select_num_each_scale (model_of r) = max_select_num_each_scale m"
    and "env ''LOOK_CLOSE_MODE'' = None \<Longrightarrow> look_close_mode (model_of r) = look_close_mode m"
    and "env ''SMOOTH_SELECTION_PROB'' = None \<Longrightarrow>
         smooth_selection_prob (model_of r) = smooth_selection_prob m"
    by (simp_all add: untouched_def)
next
  assume "accepted env"
  then obtain outs m' where run: "configure_ps3_and_context_length env m = (outs, Done m')"
    using configure_completes by blast
  note d = configure_Done [OF run]
  have "model.more m' = model.more m"
    and "num_look_close m' =
            (case env ''NUM_LOOK_CLOSE'' of None \<Rightarrow> num_look_close m | Some v \<Rightarrow> py_int v)"
    and "num_token_look_close m' =
            (case env ''NUM_TOKEN_LOOK_CLOSE'' of None \<Rightarrow> num_token_look_close m
             | Some v \<Rightarrow> py_int v)"
    and "max_select_num_each_scale m' =
            (case env ''SELECT_NUM_EACH_SCALE'' of None \<Rightarrow> max_select_num_each_scale m
             | Some v \<Rightarrow> (case ints_of (split_on CHR ''+'' v) of Inl x \<Rightarrow> None
                          | Inr ns \<Rightarrow> Some ns))"
    and "look_close_mode m' =
            (case env ''LOOK_CLOSE_MODE'' of None \<Rightarrow> look_close_mode m | Some v \<Rightarrow> Some v)"
    and "smooth_selection_prob m' =
            (case env ''SMOOTH_SELECTION_PROB'' of None \<Rightarrow> smooth_selection_prob m
             | Some v \<Rightarrow> Some (lower v = ''true''))"
    by (subst d, simp)+
  with run show "\<exists>outs m'.
         configure_ps3_and_context_length env m = (outs, Done m') \<and>
         model.more m' = model.more m \<and>
         num_look_close m' =
           (case env ''NUM_LOOK_CLOSE'' of None \<Rightarrow> num_look_close m | Some v \<Rightarrow> py_int v) \<and>
         num_token_look_close m' =
           (case env ''NUM_TOKEN_LOOK_CLOSE'' of None \<Rightarrow> num_token_look_close m
            | Some v \<Rightarrow> py_int v) \<and>
         max_select_num_each_scale m' =
           (case env ''SELECT_NUM_EACH_SCALE'' of None \<Rightarrow> max_select_num_each_scale m
            | Some v \<Rightarrow> (case ints_of (split_on CHR ''+'' v) of Inl x \<Rightarrow> None
                         | Inr ns \<Rightarrow> Some ns)) \<and>
         look_close_mode m' =
           (case env ''LOOK_CLOSE_MODE'' of None \<Rightarrow> look_close_mode m | Some v \<Rightarrow> Some v) \<and>
         smooth_selection_prob m' =
           (case env ''SMOOTH_SELECTION_PROB'' of None \<Rightarrow> smooth_selection_prob m
            | Some v \<Rightarrow> Some (lower v = ''true''))"
    by (intro exI [of _ outs] exI [of _ m'] conjI) simp_all
next
  fix outs m'
  assume "configure_ps3_and_context_length env m = (outs, Done m')"
  then show "accepted env"
    using configure_parses unfolding accepted_def by blast
qed

theorem configure_frame_witness:
  "accepted [''NUM_LOOK_CLOSE'' \<mapsto> ''3'', ''NUM_TOKEN_LOOK_CLOSE'' \<mapsto> ''2048'',
             ''SELECT_NUM_EACH_SCALE'' \<mapsto> ''1+2+3'', ''LOOK_CLOSE_MODE'' \<mapsto> ''after_prompt'',
             ''SMOOTH_SELECTION_PROB'' \<mapsto> ''False''] \<and>
   (\<exists>outs. configure_ps3_and_context_length
      [''NUM_LOOK_CLOSE'' \<mapsto> ''3'', ''NUM_TOKEN_LOOK_CLOSE'' \<mapsto> ''2048'',
       ''SELECT_NUM_EACH_SCALE'' \<mapsto> ''1+2+3'', ''LOOK_CLOSE_MODE'' \<mapsto> ''after_prompt'',
       ''SMOOTH_SELECTION_PROB'' \<mapsto> ''False'']
      \<lparr>num_look_close = Some 1, num_token_look_close = None,
         max_select_num_each_scale = Some [7], look_close_mode = Some ''before'',
         smooth_selection_prob = None, config_model_max_length = 0,
         config_tokenizer_model_max_length = 0, llm_config_model_max_length = 0,
         llm_config_tokenizer_model_max_length = 0, tokenizer_model_max_length = 4096,
         \<dots> = ''rest of the model''\<rparr> =
    (outs,
     Done \<lparr>num_look_close = Some 3, num_token_look_close = Some 2048,
             max_select_num_each_scale = Some [1, 2, 3], look_close_mode = Some ''after_prompt'',
             smooth_selection_prob = Some False, config_model_max_length = 4096,
             config_tokenizer_model_max_length = 4096, llm_config_model_max_length = 4096,
             llm_config_tokenizer_model_max_length = 4096, tokenizer_model_max_length = 4096,
             \<dots> = ''rest of the model''\<rparr>)) \<and>
   configure_ps3_and_context_length [''LOOK_CLOSE_MODE'' \<mapsto> ''after_prompt'', ''NUM_LOOK_CLOSE'' \<mapsto> ''x'']
      \<lparr>num_look_close = Some 1, num_token_look_close = None,
         max_select_num_each_scale = Some [7], look_close_mode = Some ''before'',
         smooth_selection_prob = None, config_model_max_length = 0,
         config_tokenizer_model_max_length = 0, llm_config_model_max_length = 0,
         llm_config_tokenizer_model_max_length = 0, tokenizer_model_max_length = 4096,
         \<dots> = ''rest of the model''\<rparr> =
    ([LogInfo ''Num look close: x''],
     Raised (ValueError ''x'')
      \<lparr>num_look_close = Some 1, num_token_look_close = None,
         max_select_num_each_scale = Some [7], look_close_mode = Some ''before'',
         smooth_selection_prob = None, config_model_max_length = 0,
         config_tokenizer_model_max_length = 0, llm_config_model_max_length = 0,
         llm_config_tokenizer_model_max_length = 0, tokenizer_model_max_length = 4096,
         \<dots> = ''rest of the model''\<rparr>)"
proof -
  let ?env = "[''NUM_LOOK_CLOSE'' \<mapsto> ''3'', ''NUM_TOKEN_LOOK_CLOSE'' \<mapsto> ''2048'',
             ''SELECT_NUM_EACH_SCALE'' \<mapsto> ''1+2+3'', ''LOOK_CLOSE_MODE'' \<mapsto> ''after_prompt'',
             ''SMOOTH_SELECTION_PROB'' \<mapsto> ''False'']"
  let ?bad = "[''LOOK_CLOSE_MODE'' \<mapsto> ''after_prompt'', ''NUM_LOOK_CLOSE'' \<mapsto> ''x'']"
  let ?m = "\<lparr>num_look_close = Some 1, num_token_look_close = None,
         max_select_num_each_scale = Some [7], look_close_mode = Some ''before'',
         smooth_selection_prob = None, config_model_max_length = 0,
         config_tokenizer_model_max_length = 0, llm_config_model_max_length = 0,
         llm_config_tokenizer_model_max_length = 0, tokenizer_model_max_length = 4096,
         \<dots> = ''rest of the model''\<rparr>"
  have p: "py_int ''3'' = Some 3" "py_int ''2048'' = Some 2048" "py_int ''1'' = Some 1"
    "py_int ''2'' = Some 2" "py_int ''x'' = None"
    by (simp_all add: literal_defs)
  have l: "lower ''False'' = ''false''"
    by (simp add: lower_def lower_char_def)
  have i: "ints_of (split_on CHR ''+'' ''1+2+3'') = Inr [1, 2, 3]"
    by (simp add: p)
  have a: "accepted ?env"
    by (simp add: accepted_def p l i)
  note frame = configure_frame [of ?env ?m]
  obtain outs m' where run: "configure_ps3_and_context_length ?env ?m = (outs, Done m')"
    and fields: "model.more m' = model.more ?m"
      "num_look_close m' = py_int ''3''" "num_token_look_close m' = py_int ''2048''"
      "max_select_num_each_scale m' =
         (case ints_of (split_on CHR ''+'' ''1+2+3'') of Inl x \<Rightarrow> None | Inr ns \<Rightarrow> Some ns)"
      "look_close_mode m' = Some ''after_prompt''"
      "smooth_selection_prob m' = Some (lower ''False'' = ''true'')"
    using frame a by auto
  have lens: "config_model_max_length m' = 4096" "config_tokenizer_model_max_length m' = 4096"
    "llm_config_model_max_length m' = 4096" "llm_config_tokenizer_model_max_length m' = 4096"
    "tokenizer_model_max_length m' = 4096"
    by (subst configure_Done [OF run], simp add: derived_bounds_def p)+
  have "m' = \<lparr>num_look_close = Some 3, num_token_look_close = Some 2048,
             max_select_num_each_scale = Some [1, 2, 3], look_close_mode = Some ''after_prompt'',
             smooth_selection_prob = Some False, config_model_max_length = 4096,
             config_tokenizer_model_max_length = 4096, llm_config_model_max_length = 4096,
             llm_config_tokenizer_model_max_length = 4096, tokenizer_model_max_length = 4096,
             \<dots> = ''rest of the model''\<rparr>"
    using fields lens by (cases m') (simp add: p l i)
  with run have ok: "\<exists>outs. configure_ps3_and_context_length ?env ?m =
    (outs,
     Done \<lparr>num_look_close = Some 3, num_token_look_close = Some 2048,
             max_select_num_each_scale = Some [1, 2, 3], look_close_mode = Some ''after_prompt'',
             smooth_selection_prob = Some False, config_model_max_length = 4096,
             config_tokenizer_model_max_length = 4096, llm_config_model_max_length = 4096,
             llm_config_tokenizer_model_max_length = 4096, tokenizer_model_max_length = 4096,
             \<dots> = ''rest of the model''\<rparr>)"
    by blast
  have raised: "configure_ps3_and_context_length ?bad ?m =
    ([LogInfo ''Num look close: x''], Raised (ValueError ''x'') ?m)"
    by (simp add: configure_defs p)
  from a ok raised show ?thesis
    by blast
qed

text \<open>
  Claim C6. When \<^verbatim>\<open>SMOOTH_SELECTION_PROB\<close> is present with a value that is neither "true"
  nor "false" in any case, the configuration raises a \<open>ValueError\<close> whatever the model,
  and \<open>main\<close>, once the model is loaded, ends with that exception uncaught before it has
  read any input or handed any prompt to the model. When the value is "true" in some case
  (and the other variables are accepted) the configuration completes with the attribute
  \<open>True\<close>, and with \<open>False\<close> when it is "false" in some case.
\<close>

theorem bad_smooth_selection_prob_is_fatal:
  assumes "environ sys ''SMOOTH_SELECTION_PROB'' = Some v"
  shows "(lower v \<noteq> ''true'' \<and> lower v \<noteq> ''false'' \<longrightarrow>
            (\<forall>m. \<exists>outs msg m'.
               configure_ps3_and_context_length (environ sys) m =
                 (outs, Raised (ValueError msg) m')) \<and>
            (\<forall>m0. (case lora_path a of
                      None \<Rightarrow> load sys (model_path a) None
                    | Some l \<Rightarrow> load sys l (Some (model_path a))) = Inr m0 \<longrightarrow>
               (\<exists>msg w'. main sys a fuel w = Some (Uncaught (ValueError msg), w') \<and>
                         prompts w' = prompts w \<and> stdin w' = stdin w))) \<and>
         (lower v = ''true'' \<and> accepted (environ sys) \<longrightarrow>
            (\<forall>m. \<exists>outs m'. configure_ps3_and_context_length (environ sys) m = (outs, Done m') \<and>
                            smooth_selection_prob m' = Some True)) \<and>
         (lower v = ''false'' \<and> accepted (environ sys) \<longrightarrow>
            (\<forall>m. \<exists>outs m'. configure_ps3_and_context_length (environ sys) m = (outs, Done m') \<and>
                            smooth_selection_prob m' = Some False)) \<and>
         (\<forall>m outs m'. configure_ps3_and_context_length (environ sys) m = (outs, Done m') \<longrightarrow>
            (lower v = ''true'' \<and> smooth_selection_prob m' = Some True) \<or>
            (lower v = ''false'' \<and> smooth_selection_prob m' = Some False))"
proof -
  have conv: "smooth_selection_prob m' = Some (lower v = ''true'') \<and>
              (lower v = ''true'' \<or> lower v = ''false'')"
    if run: "configure_ps3_and_context_length (environ sys) m = (outs, Done m')" for m outs m'
  proof -
    have "smooth_selection_prob m' = Some (lower v = ''true'')"
      by (subst configure_Done [OF run]) (simp add: assms)
    moreover have "lower v = ''true'' \<or> lower v = ''false''"
      using configure_parses [OF run] assms by simp
    ultimately show ?thesis by simp
  qed
  have completes: "\<exists>outs m'. configure_ps3_and_context_length (environ sys) m = (outs, Done m') \<and>
                            smooth_selection_prob m' = Some (lower v = ''true'')"
    if "accepted (environ sys)" for m
    using configure_completes [OF that, of m] conv by blast
  have raises: "\<exists>outs msg m'. configure_ps3_and_context_length (environ sys) m =
                 (outs, Raised (ValueError msg) m')"
    if "lower v \<noteq> ''true'' \<and> lower v \<noteq> ''false''" for m
    using bad_smooth_selection_prob_raises [of "environ sys" v m] assms that by blast
  have fatal: "\<exists>msg w'. main sys a fuel w = Some (Uncaught (ValueError msg), w') \<and>
                 prompts w' = prompts w \<and> stdin w' = stdin w"
    if bad: "lower v \<noteq> ''true'' \<and> lower v \<noteq> ''false''"
      and ld: "(case lora_path a of
                None \<Rightarrow> load sys (model_path a) None
              | Some l \<Rightarrow> load sys l (Some (model_path a))) = Inr m0" for m0
  proof -
    obtain outs msg m' where
      c: "configure_ps3_and_context_length (environ sys) m0 = (outs, Raised (ValueError msg) m')"
      using raises [OF bad] by blast
    show ?thesis
      by (simp add: main_def Let_def ld c emit_def)
  qed
  show ?thesis
  proof (intro conjI impI allI)
    fix m assume "lower v = ''true'' \<and> accepted (environ sys)"
    then show "\<exists>outs m'. configure_ps3_and_context_length (environ sys) m = (outs, Done m') \<and>
                            smooth_selection_prob m' = Some True"
      using completes [of m] by auto
  next
    fix m assume "lower v = ''false'' \<and> accepted (environ sys)"
    then show "\<exists>outs m'. configure_ps3_and_context_length (environ sys) m = (outs, Done m') \<and>
                            smooth_selection_prob m' = Some False"
      using completes [of m] by auto
  next
    fix m assume "lower v \<noteq> ''true'' \<and> lower v \<noteq> ''false''"
    then show "\<exists>outs msg m'. configure_ps3_and_context_length (environ sys) m =
                 (outs, Raised (ValueError msg) m')"
      by (rule raises)
  next
    fix m0
    assume "lower v \<noteq> ''true'' \<and> lower v \<noteq> ''false''"
      and "(case lora_path a of
                None \<Rightarrow> load sys (model_path a) None
              | Some l \<Rightarrow> load sys l (Some (model_path a))) = Inr m0"
    then show "\<exists>msg w'. main sys a fuel w = Some (Uncaught (ValueError msg), w') \<and>
                 prompts w' = prompts w \<and> stdin w' = stdin w"
      by (rule fatal)
  next
    fix m outs m'
    assume "configure_ps3_and_context_length (environ sys) m = (outs, Done m')"
    from conv [OF this]
    show "(lower v = ''true'' \<and> smooth_selection_prob m' = Some True) \<or>
          (lower v = ''false'' \<and> smooth_selection_prob m' = Some False)"
      by auto
  qed
qed

theorem bad_smooth_selection_prob_is_fatal_witness:
  "lower ''maybe'' \<noteq> ''true'' \<and> lower ''maybe'' \<noteq> ''false'' \<and>
   (\<exists>msg w'. main (example_system [''SMOOTH_SELECTION_PROB'' \<mapsto> ''maybe''] (\<lambda>p. Inr ''a cat''))
                 example_args 3 (example_world [Line ''all'', Line ''what?'']) =
               Some (Uncaught (ValueError msg), w') \<and>
             prompts w' = [] \<and> stdin w' = [Line ''all'', Line ''what?'']) \<and>
   lower ''TRUE'' = ''true'' \<and>
   accepted [''SMOOTH_SELECTION_PROB'' \<mapsto> ''TRUE'', ''NUM_LOOK_CLOSE'' \<mapsto> ''2''] \<and>
   (\<exists>outs m'. configure_ps3_and_context_length
                 [''SMOOTH_SELECTION_PROB'' \<mapsto> ''TRUE'', ''NUM_LOOK_CLOSE'' \<mapsto> ''2''] example_model =
               (outs, Done m') \<and> smooth_selection_prob m' = Some True) \<and>
   lower ''False'' = ''false'' \<and>
   accepted [''SMOOTH_SELECTION_PROB'' \<mapsto> ''False''] \<and>
   (\<exists>outs m'. configure_ps3_and_context_length
                 [''SMOOTH_SELECTION_PROB'' \<mapsto> ''False''] example_model =
               (outs, Done m') \<and> smooth_selection_prob m' = Some False)"
proof -
  let ?bad = "example_system [''SMOOTH_SELECTION_PROB'' \<mapsto> ''maybe''] (\<lambda>p. Inr ''a cat'')"
  let ?t = "example_system [''SMOOTH_SELECTION_PROB'' \<mapsto> ''TRUE'', ''NUM_LOOK_CLOSE'' \<mapsto> ''2'']
              (\<lambda>p. Inr ''a cat'')"
  let ?f = "example_system [''SMOOTH_SELECTION_PROB'' \<mapsto> ''False''] (\<lambda>p. Inr ''a cat'')"
  have l: "lower ''maybe'' = ''maybe''" "lower ''TRUE'' = ''true''" "lower ''False'' = ''false''"
    by (simp_all add: lower_def lower_char_def)
  have p: "py_int ''2'' = Some 2"
    by (simp add: literal_defs)
  have h: "environ ?bad ''SMOOTH_SELECTION_PROB'' = Some ''maybe''"
    "environ ?t ''SMOOTH_SELECTION_PROB'' = Some ''TRUE''"
    "environ ?f ''SMOOTH_SELECTION_PROB'' = Some ''False''"
    by (simp_all add: example_system_def)
  have e: "environ ?t = [''SMOOTH_SELECTION_PROB'' \<mapsto> ''TRUE'', ''NUM_LOOK_CLOSE'' \<mapsto> ''2'']"
    "environ ?f = [''SMOOTH_SELECTION_PROB'' \<mapsto> ''False'']"
    by (simp_all add: example_system_def)
  have a: "accepted [''SMOOTH_SELECTION_PROB'' \<mapsto> ''TRUE'', ''NUM_LOOK_CLOSE'' \<mapsto> ''2'']"
    "accepted [''SMOOTH_SELECTION_PROB'' \<mapsto> ''False'']"
    by (simp_all add: accepted_def l p)
  have ld: "(case lora_path example_args of
               None \<Rightarrow> load ?bad (model_path example_args) None
             | Some l \<Rightarrow> load ?bad l (Some (model_path example_args))) = Inr example_model"
    by (simp add: example_system_def example_args_def)
  have r1: "\<exists>msg w'. main ?bad example_args 3 (example_world [Line ''all'', Line ''what?'']) =
               Some (Uncaught (ValueError msg), w') \<and>
             prompts w' = [] \<and> stdin w' = [Line ''all'', Line ''what?'']"
    using bad_smooth_selection_prob_is_fatal
            [OF h(1), of example_args 3 "example_world [Line ''all'', Line ''what?'']"] l ld
    unfolding example_world_def by auto
  have r2: "\<exists>outs m'. configure_ps3_and_context_length
                 [''SMOOTH_SELECTION_PROB'' \<mapsto> ''TRUE'', ''NUM_LOOK_CLOSE'' \<mapsto> ''2''] example_model =
               (outs, Done m') \<and> smooth_selection_prob m' = Some True"
    using bad_smooth_selection_prob_is_fatal [OF h(2)] l a unfolding e by blast
  have r3: "\<exists>outs m'. configure_ps3_and_context_length
                 [''SMOOTH_SELECTION_PROB'' \<mapsto> ''False''] example_model =
               (outs, Done m') \<and> smooth_selection_prob m' = Some False"
    using bad_smooth_selection_prob_is_fatal [OF h(3)] l a unfolding e by blast
  from l a r1 r2 r3 show ?thesis
    by simp
qed

end
